theory Spec2Isabelle
  imports Main
begin

section \<open>Python strings\<close>

text \<open>
  A Python \<^verbatim>\<open>str\<close> is modelled as the list of its code points, each an integer as \<^verbatim>\<open>ord\<close>
  gives it.
  \<open>py\<close> writes a string of ASCII (or Latin-1) characters, \<open>ch\<close> one such character.
\<close>

type_synonym pystr = "int list"

definition py :: "string \<Rightarrow> pystr" where
  "py s = map of_char s"

definition ch :: "char \<Rightarrow> int" where
  "ch c = of_char c"

text \<open>
  The characters removed by \<^verbatim>\<open>str.strip()\<close> without argument, that is, those for which
  \<^verbatim>\<open>str.isspace\<close> holds.
\<close>

definition isspace :: "int \<Rightarrow> bool" where
  "isspace c =
     (c \<in> set [0x09, 0x0A, 0x0B, 0x0C, 0x0D, 0x1C, 0x1D, 0x1E, 0x1F, 0x20, 0x85, 0xA0, 0x1680,
                0x2000, 0x2001, 0x2002, 0x2003, 0x2004, 0x2005, 0x2006, 0x2007, 0x2008, 0x2009,
                0x200A, 0x2028, 0x2029, 0x202F, 0x205F, 0x3000])"

text \<open>\<^verbatim>\<open>s.lstrip(chars)\<close>, \<^verbatim>\<open>s.rstrip(chars)\<close>, \<^verbatim>\<open>s.strip(chars)\<close> for a predicate on characters.\<close>

definition lstrip_where :: "(int \<Rightarrow> bool) \<Rightarrow> pystr \<Rightarrow> pystr" where
  "lstrip_where p s = dropWhile p s"

definition rstrip_where :: "(int \<Rightarrow> bool) \<Rightarrow> pystr \<Rightarrow> pystr" where
  "rstrip_where p s = rev (dropWhile p (rev s))"

definition strip_where :: "(int \<Rightarrow> bool) \<Rightarrow> pystr \<Rightarrow> pystr" where
  "strip_where p s = rstrip_where p (lstrip_where p s)"

text \<open>\<^verbatim>\<open>s.strip()\<close>: whitespace on both ends.\<close>

definition py_strip :: "pystr \<Rightarrow> pystr" where
  "py_strip s = strip_where isspace s"

text \<open>\<^verbatim>\<open>s.strip(chars)\<close> and \<^verbatim>\<open>s.rstrip(chars)\<close> with an explicit set of characters.\<close>

definition py_strip_chars :: "pystr \<Rightarrow> pystr \<Rightarrow> pystr" where
  "py_strip_chars chars s = strip_where (\<lambda>c. c \<in> set chars) s"

definition py_rstrip_chars :: "pystr \<Rightarrow> pystr \<Rightarrow> pystr" where
  "py_rstrip_chars chars s = rstrip_where (\<lambda>c. c \<in> set chars) s"

text \<open>\<^verbatim>\<open>s.replace(a, b)\<close> for one-character strings \<open>a\<close> and \<open>b\<close>.\<close>

definition py_replace_char :: "int \<Rightarrow> int \<Rightarrow> pystr \<Rightarrow> pystr" where
  "py_replace_char a b s = map (\<lambda>c. if c = a then b else c) s"

section \<open>Sanitization\<close>

subsection \<open>create\_is.py: \<^verbatim>\<open>MediaOrganizer.sanitize_filename\<close>\<close>

text \<open>The character class \<^verbatim>\<open>[<>:"/\\|?*]\<close>.\<close>

definition illegal_chars :: "pystr" where
  "illegal_chars =
     py [CHR ''<'', CHR ''>'', CHR '':'', CHR 0x22, CHR ''/'', CHR 0x5C, CHR ''|'', CHR ''?'',
         CHR ''*'']"

text \<open>\<^verbatim>\<open>re.sub(r'[<>:"/\\|?*]', '', filename).strip()\<close>\<close>

definition organizer_sanitize_filename :: "pystr \<Rightarrow> pystr" where
  "organizer_sanitize_filename filename =
     py_strip (filter (\<lambda>c. c \<notin> set illegal_chars) filename)"

subsection \<open>plex\_converter.py: \<^verbatim>\<open>sanitize_filename\<close>\<close>

text \<open>Control characters: the range \<^verbatim>\<open>\x00-\x1F\<close>.\<close>

definition is_control :: "int \<Rightarrow> bool" where
  "is_control c = (0 \<le> c \<and> c < 32)"

text \<open>The character class \<^verbatim>\<open>[<>:"/\\|?*\x00-\x1F]\<close>.\<close>

definition invalid_chars :: "int \<Rightarrow> bool" where
  "invalid_chars c = (c \<in> set illegal_chars \<or> is_control c)"

text \<open>
  \<^verbatim>\<open>re.sub(r'_+', '_', s)\<close>: every maximal run of underscores becomes one underscore, that
  is, an underscore directly followed by another one is dropped.
\<close>

fun collapse_underscores :: "pystr \<Rightarrow> pystr" where
  "collapse_underscores (a # b # s) =
     (if a = ch (CHR ''_'') \<and> b = ch (CHR ''_'') then collapse_underscores (b # s)
      else a # collapse_underscores (b # s))"
| "collapse_underscores s = s"

definition plex_sanitize_filename :: "pystr \<Rightarrow> pystr" where
  "plex_sanitize_filename filename =
     (let sanitized = map (\<lambda>c. if invalid_chars c then ch (CHR ''_'') else c) filename;
          sanitized = py_strip_chars (py '' .'') sanitized;
          sanitized = collapse_underscores sanitized;
          sanitized = py_rstrip_chars (py ''_'') sanitized
      in if sanitized = [] then py ''unnamed_file'' else sanitized)"

section \<open>Paths\<close>

text \<open>
  A \<^verbatim>\<open>pathlib\<close> path is modelled by its tuple of parts (POSIX flavour): the root \<^verbatim>\<open>/\<close> (or
  \<^verbatim>\<open>//\<close>) first when the path is absolute, then the components. Parsing a string splits it at
  the slashes and drops empty components and single dots. The properties \<^verbatim>\<open>name\<close>,
  \<^verbatim>\<open>suffix\<close> and \<^verbatim>\<open>stem\<close> are those of CPython 3.8 to 3.13: the suffix starts at the last dot
  of the name, unless that dot is the first or the last character of the name.
\<close>

type_synonym path = "pystr list"

text \<open>\<^verbatim>\<open>s.split(sep)\<close> for a one-character separator.\<close>

fun py_split :: "int \<Rightarrow> pystr \<Rightarrow> pystr list" where
  "py_split sep [] = [[]]"
| "py_split sep (c # s) =
     (if c = sep then [] # py_split sep s
      else (case py_split sep s of [] \<Rightarrow> [[c]] | w # ws \<Rightarrow> (c # w) # ws))"

definition path_root :: "pystr \<Rightarrow> pystr" where
  "path_root s =
     (if take 2 s = py ''//'' \<and> take 3 s \<noteq> py ''///'' then py ''//''
      else if take 1 s = py ''/'' then py ''/'' else [])"

definition path_components :: "pystr \<Rightarrow> pystr list" where
  "path_components s = filter (\<lambda>w. w \<noteq> [] \<and> w \<noteq> py ''.'') (py_split (ch (CHR ''/'')) s)"

text \<open>\<^verbatim>\<open>Path(s)\<close>\<close>

definition Path :: "pystr \<Rightarrow> path" where
  "Path s = (if path_root s = [] then [] else [path_root s]) @ path_components s"

text \<open>\<^verbatim>\<open>p.name\<close>: the last component, empty when the path has none (only a root, or nothing).\<close>

definition path_name :: "path \<Rightarrow> pystr" where
  "path_name p = (if p = [] \<or> ch (CHR ''/'') \<in> set (last p) then [] else last p)"

text \<open>\<^verbatim>\<open>p.parent\<close>: the path without its last component; a root and the empty path are their own parents.\<close>

definition path_parent :: "path \<Rightarrow> path" where
  "path_parent p = (if p = [] \<or> ch (CHR ''/'') \<in> set (last p) then p else butlast p)"

text \<open>\<^verbatim>\<open>p / s\<close> for a string \<open>s\<close>: an absolute \<open>s\<close> replaces \<open>p\<close>.\<close>

definition path_join :: "path \<Rightarrow> pystr \<Rightarrow> path" where
  "path_join p s = (if path_root s = [] then p @ path_components s else Path s)"

text \<open>\<^verbatim>\<open>s.rfind(c)\<close>, with \<open>None\<close> for Python's \<^verbatim>\<open>-1\<close>.\<close>

definition py_rfind :: "int \<Rightarrow> pystr \<Rightarrow> nat option" where
  "py_rfind c s =
     (let r = dropWhile (\<lambda>x. x \<noteq> c) (rev s) in if r = [] then None else Some (length r - 1))"

definition name_suffix :: "pystr \<Rightarrow> pystr" where
  "name_suffix name =
     (case py_rfind (ch (CHR ''.'')) name of
        None \<Rightarrow> []
      | Some i \<Rightarrow> if 0 < i \<and> i < length name - 1 then drop i name else [])"

definition name_stem :: "pystr \<Rightarrow> pystr" where
  "name_stem name =
     (case py_rfind (ch (CHR ''.'')) name of
        None \<Rightarrow> name
      | Some i \<Rightarrow> if 0 < i \<and> i < length name - 1 then take i name else name)"

text \<open>\<^verbatim>\<open>p.suffix\<close> and \<^verbatim>\<open>p.stem\<close>\<close>

definition path_suffix :: "path \<Rightarrow> pystr" where
  "path_suffix p = name_suffix (path_name p)"

definition path_stem :: "path \<Rightarrow> pystr" where
  "path_stem p = name_stem (path_name p)"

section \<open>Title and year extraction\<close>

text \<open>Exceptions that the modelled code can raise.\<close>

datatype py_error =
    AttributeError | TypeError | KeyError | IndexError
  | FileNotFoundError | FileExistsError | NotADirectoryError | IsADirectoryError | OSError

text \<open>
  The class \<^verbatim>\<open>\d\<close> of a \<^verbatim>\<open>str\<close> pattern is the set of Unicode decimal digits (the pattern is
  compiled without \<^verbatim>\<open>re.ASCII\<close>), and \<^verbatim>\<open>int\<close> reads the same digits. They come in runs of ten,
  from a zero to a nine. Among the ASCII characters the digits are \<^verbatim>\<open>0\<close> to \<^verbatim>\<open>9\<close>. Which other
  characters are digits depends on the Unicode version of the interpreter: \<open>nd\<close> lists the
  zeros of its runs of decimal digits beyond ASCII. \<open>decimal_digit nd c\<close> is the value of
  the digit \<open>c\<close>, and \<open>None\<close> for any other character.
\<close>

definition decimal_digit :: "int list \<Rightarrow> int \<Rightarrow> int option" where
  "decimal_digit nd c =
     (if c < 128 then (if 48 \<le> c \<and> c \<le> 57 then Some (c - 48) else None)
      else
        (case find (\<lambda>z. z \<le> c \<and> c < z + 10) nd of
           None \<Rightarrow> None
         | Some z \<Rightarrow> Some (c - z)))"

definition is_digit :: "int list \<Rightarrow> int \<Rightarrow> bool" where
  "is_digit nd c = (decimal_digit nd c \<noteq> None)"

definition digit_value :: "int list \<Rightarrow> int \<Rightarrow> int" where
  "digit_value nd c = (case decimal_digit nd c of None \<Rightarrow> 0 | Some v \<Rightarrow> v)"

text \<open>The zeros of the 65 runs of decimal digits beyond ASCII in Unicode 14, as in CPython 3.11.\<close>

definition unicode_14_zeros :: "int list" where
  "unicode_14_zeros =
     [0x660, 0x6F0, 0x7C0, 0x966, 0x9E6, 0xA66, 0xAE6, 0xB66, 0xBE6, 0xC66, 0xCE6, 0xD66,
      0xDE6, 0xE50, 0xED0, 0xF20, 0x1040, 0x1090, 0x17E0, 0x1810, 0x1946, 0x19D0, 0x1A80, 0x1A90,
      0x1B50, 0x1BB0, 0x1C40, 0x1C50, 0xA620, 0xA8D0, 0xA900, 0xA9D0, 0xA9F0, 0xAA50, 0xABF0,
      0xFF10, 0x104A0, 0x10D30, 0x11066, 0x110F0, 0x11136, 0x111D0, 0x112F0, 0x11450, 0x114D0,
      0x11650, 0x116C0, 0x11730, 0x118E0, 0x11950, 0x11C50, 0x11D50, 0x11DA0, 0x16A60, 0x16AC0,
      0x16B50, 0x1D7CE, 0x1D7D8, 0x1D7E2, 0x1D7EC, 0x1D7F6, 0x1E140, 0x1E2F0, 0x1E950, 0x1FBF0]"

text \<open>\<^verbatim>\<open>int(s)\<close> for a string of decimal digits.\<close>

definition py_int :: "int list \<Rightarrow> pystr \<Rightarrow> int" where
  "py_int nd s = foldl (\<lambda>n c. 10 * n + digit_value nd c) 0 s"

text \<open>
  The pattern \<^verbatim>\<open>[\(\.\[ ](19|20)\d{2}[\)\.\] ]\<close> matches exactly six characters;
  \<open>year_pattern_at s\<close> says that it matches at the beginning of \<open>s\<close>.
\<close>

definition year_pattern_at :: "int list \<Rightarrow> pystr \<Rightarrow> bool" where
  "year_pattern_at nd s =
     (6 \<le> length s \<and> s ! 0 \<in> set (py ''(.[ '') \<and>
      (take 2 (drop 1 s) = py ''19'' \<or> take 2 (drop 1 s) = py ''20'') \<and>
      is_digit nd (s ! 3) \<and> is_digit nd (s ! 4) \<and> s ! 5 \<in> set (py '').] ''))"

text \<open>\<^verbatim>\<open>re.search(year_pattern, stem)\<close>: the start of the leftmost match, if there is one.\<close>

fun re_search_year :: "int list \<Rightarrow> pystr \<Rightarrow> nat option" where
  "re_search_year nd [] = None"
| "re_search_year nd (c # s) =
     (if year_pattern_at nd (c # s) then Some 0 else map_option Suc (re_search_year nd s))"

text \<open>\<^verbatim>\<open>re.search(r'\d{4}', s)\<close>: the leftmost four consecutive digits, if there are any.\<close>

fun re_search_digits4 :: "int list \<Rightarrow> pystr \<Rightarrow> pystr option" where
  "re_search_digits4 nd [] = None"
| "re_search_digits4 nd (c # s) =
     (if 4 \<le> length (c # s) \<and> list_all (is_digit nd) (take 4 (c # s)) then Some (take 4 (c # s))
      else re_search_digits4 nd s)"

text \<open>
  \<^verbatim>\<open>MediaOrganizer.extract_title_year\<close>. Calling \<^verbatim>\<open>.group()\<close> on a failed inner search
  would raise \<^verbatim>\<open>AttributeError\<close>.
\<close>

definition extract_title_year ::
  "int list \<Rightarrow> pystr \<Rightarrow> py_error + (pystr \<times> int option)" where
  "extract_title_year nd filename =
     (let stem = path_stem (Path filename) in
      case re_search_year nd stem of
        Some title_start \<Rightarrow>
          (case re_search_digits4 nd (take 6 (drop title_start stem)) of
             None \<Rightarrow> Inl AttributeError
           | Some year_str \<Rightarrow>
               (let year = py_int nd year_str;
                    title_end = title_start + 6;
                    title = take title_start stem @ drop title_end stem;
                    title = py_strip (py_replace_char (ch (CHR ''.'')) (ch (CHR '' '')) title)
                in Inr (title, Some year)))
      | None \<Rightarrow>
          Inr (py_strip (py_replace_char (ch (CHR ''.'')) (ch (CHR '' '')) stem), None))"

text \<open>
  The words of the specification: a four-digit token in the range 1900 to 2099, its digits
  being the digits 0 to 9 (\<open>ascii_int\<close> is the number they denote); such a token at position \<open>i + 1\<close> of a string, delimited by an
  opening bracket, parenthesis, dot or space before it and a closing bracket, parenthesis,
  dot or space after it; and a string that contains such a token.
\<close>

definition ascii_digit :: "int \<Rightarrow> bool" where
  "ascii_digit c = (ch (CHR ''0'') \<le> c \<and> c \<le> ch (CHR ''9''))"

definition ascii_int :: "pystr \<Rightarrow> int" where
  "ascii_int s = foldl (\<lambda>n c. 10 * n + (c - ch (CHR ''0''))) 0 s"

definition year_token :: "pystr \<Rightarrow> bool" where
  "year_token y =
     (length y = 4 \<and> list_all ascii_digit y \<and> 1900 \<le> ascii_int y \<and> ascii_int y \<le> 2099)"

definition delimited_year_at :: "pystr \<Rightarrow> nat \<Rightarrow> bool" where
  "delimited_year_at s i =
     (i + 6 \<le> length s \<and> s ! i \<in> set (py ''(.[ '') \<and> year_token (take 4 (drop (i + 1) s)) \<and>
      s ! (i + 5) \<in> set (py '').] ''))"

definition contains_delimited_year :: "pystr \<Rightarrow> bool" where
  "contains_delimited_year s = list_ex (delimited_year_at s) [0..<length s]"

text \<open>
  The tokens that the code takes for a year: the two characters \<^verbatim>\<open>19\<close> or \<^verbatim>\<open>20\<close> followed by two
  decimal digits of any script, between the same delimiters.
\<close>

definition year_like_token :: "int list \<Rightarrow> pystr \<Rightarrow> bool" where
  "year_like_token nd y =
     (length y = 4 \<and> (take 2 y = py ''19'' \<or> take 2 y = py ''20'') \<and>
      is_digit nd (y ! 2) \<and> is_digit nd (y ! 3))"

definition year_like_at :: "int list \<Rightarrow> pystr \<Rightarrow> nat \<Rightarrow> bool" where
  "year_like_at nd s i =
     (i + 6 \<le> length s \<and> s ! i \<in> set (py ''(.[ '') \<and>
      year_like_token nd (take 4 (drop (i + 1) s)) \<and> s ! (i + 5) \<in> set (py '').] ''))"

definition contains_year_like :: "int list \<Rightarrow> pystr \<Rightarrow> bool" where
  "contains_year_like nd s = list_ex (year_like_at nd s) [0..<length s]"

section \<open>Provider data\<close>

text \<open>
  A Python value as \<^verbatim>\<open>response.json()\<close> returns it: \<^verbatim>\<open>None\<close> (\<open>JNull\<close>), a boolean, a number, a
  string, a list or a dictionary with string keys, given by its items. Of a number the code
  only ever observes whether it is zero, so integers stand for all numbers. The lookups
  return such a value too, \<open>JNull\<close> being their \<^verbatim>\<open>None\<close>.
\<close>

datatype json =
  JNull | JBool bool | JNum int | JStr pystr | JList "json list" | JDict "(pystr \<times> json) list"

text \<open>Python's truth value of such a value.\<close>

fun truthy :: "json \<Rightarrow> bool" where
  "truthy JNull = False"
| "truthy (JBool b) = b"
| "truthy (JNum n) = (n \<noteq> 0)"
| "truthy (JStr s) = (s \<noteq> [])"
| "truthy (JList xs) = (xs \<noteq> [])"
| "truthy (JDict items) = (items \<noteq> [])"

text \<open>\<^verbatim>\<open>d.get(key, default)\<close>: only a dictionary has the method.\<close>

definition py_get :: "json \<Rightarrow> pystr \<Rightarrow> json \<Rightarrow> py_error + json" where
  "py_get d key dflt =
     (case d of
        JDict items \<Rightarrow> Inr (case map_of items key of None \<Rightarrow> dflt | Some v \<Rightarrow> v)
      | _ \<Rightarrow> Inl AttributeError)"

text \<open>\<^verbatim>\<open>d[key]\<close> for a string key.\<close>

definition py_getitem :: "json \<Rightarrow> pystr \<Rightarrow> py_error + json" where
  "py_getitem d key =
     (case d of
        JDict items \<Rightarrow> (case map_of items key of None \<Rightarrow> Inl KeyError | Some v \<Rightarrow> Inr v)
      | _ \<Rightarrow> Inl TypeError)"

text \<open>\<^verbatim>\<open>x[0]\<close>: the first element of a list, the first character of a string.\<close>

definition py_index0 :: "json \<Rightarrow> py_error + json" where
  "py_index0 x =
     (case x of
        JList xs \<Rightarrow> (case xs of [] \<Rightarrow> Inl IndexError | r # _ \<Rightarrow> Inr r)
      | JStr s \<Rightarrow> (case s of [] \<Rightarrow> Inl IndexError | c # _ \<Rightarrow> Inr (JStr [c]))
      | JDict items \<Rightarrow> Inl KeyError
      | _ \<Rightarrow> Inl TypeError)"

text \<open>\<^verbatim>\<open>x[:4]\<close>: strings and lists can be sliced.\<close>

definition py_slice4 :: "json \<Rightarrow> py_error + json" where
  "py_slice4 x =
     (case x of
        JStr s \<Rightarrow> Inr (JStr (take 4 s))
      | JList xs \<Rightarrow> Inr (JList (take 4 xs))
      | _ \<Rightarrow> Inl TypeError)"

text \<open>\<^verbatim>\<open>str(n)\<close> for an integer, and for an optional integer as an f-string prints it.\<close>

function str_digits :: "int \<Rightarrow> pystr" where
  "str_digits n = (if n < 10 then [48 + n] else str_digits (n div 10) @ [48 + n mod 10])"
  by pat_completeness auto
termination
  by (relation "measure nat") auto

declare str_digits.simps [simp del]

definition py_str_int :: "int \<Rightarrow> pystr" where
  "py_str_int i = (if i < 0 then ch (CHR ''-'') # str_digits (- i) else str_digits i)"

definition py_str_opt_int :: "int option \<Rightarrow> pystr" where
  "py_str_opt_int year = (case year of None \<Rightarrow> py ''None'' | Some y \<Rightarrow> py_str_int y)"

section \<open>The environment and the state\<close>

text \<open>
  The requests the renamer sends: a GET with its URL and query parameters, and the POST of
  the fixed GraphQL query with its URL and the \<^verbatim>\<open>search\<close> variable. The API key and the headers
  are fixed when the organizer is created and are left out.
\<close>

datatype request = Get pystr "(pystr \<times> pystr) list" | Post pystr pystr

text \<open>
  What a run does besides returning: the calls of the three lookups (recorded when the call
  starts), the requests sent, and the lines logged or printed.
\<close>

datatype event =
    Call_search_movie pystr "int option"
  | Call_search_tv_show pystr "int option"
  | Call_search_anime pystr
  | Http request
  | Log_error
  | Log_no_match pystr
  | Log_renamed pystr
  | Print_dry_run pystr pystr
  | Print_would_rename pystr pystr
  | Print_renamed pystr pystr
  | Print_error_renaming pystr

datatype platform = Posix | Windows

text \<open>
  The environment of a run. \<open>http\<close> answers a request, given everything that happened
  before it: \<open>Some data\<close> is the parsed body of a successful response, \<open>None\<close> stands for an
  exception raised by the request, by \<^verbatim>\<open>raise_for_status\<close> or by \<^verbatim>\<open>json\<close>. \<open>str_other\<close> is
  Python's \<^verbatim>\<open>str\<close> on values that are not strings, as an f-string uses it. \<open>decimals\<close> lists
  the zeros of the runs of decimal digits beyond ASCII that the interpreter knows.
\<close>

record env =
  platform :: platform
  http :: "event list \<Rightarrow> request \<Rightarrow> json option"
  str_other :: "json \<Rightarrow> pystr"
  decimals :: "int list"

text \<open>
  What a path names: a regular file with its content, or a directory. A file system is the
  finite list of the paths that exist, each with what it names (the first entry counts if a
  path is listed twice). The current directory (the empty path) and the roots always exist.
  Paths are taken as written: \<^verbatim>\<open>..\<close> and links are not resolved; permissions and limits
  on the length of a name are not modelled, and no name holds the character NUL. The state
  of a run: the organizer's cache, the file system, and the events so far.
\<close>

datatype node = File pystr | Dir

type_synonym filesystem = "(path \<times> node) list"

record world =
  cache :: "pystr \<rightharpoonup> json"
  files :: filesystem
  trace :: "event list"

definition emit :: "event \<Rightarrow> world \<Rightarrow> world" where
  "emit e w = w\<lparr>trace := trace w @ [e]\<rparr>"

text \<open>\<^verbatim>\<open>p.is_file()\<close>, \<^verbatim>\<open>p.is_dir()\<close> and \<^verbatim>\<open>p.exists()\<close>\<close>

definition is_file :: "filesystem \<Rightarrow> path \<Rightarrow> bool" where
  "is_file fs p = (case map_of fs p of Some (File content) \<Rightarrow> True | _ \<Rightarrow> False)"

definition is_dir :: "filesystem \<Rightarrow> path \<Rightarrow> bool" where
  "is_dir fs p = (p = [] \<or> p = [py ''/''] \<or> p = [py ''//''] \<or> map_of fs p = Some Dir)"

definition path_exists :: "filesystem \<Rightarrow> path \<Rightarrow> bool" where
  "path_exists fs p = (is_dir fs p \<or> map_of fs p \<noteq> None)"

text \<open>
  \<open>inside p q\<close>: the path \<open>q\<close> is \<open>p\<close> or lies below it. A directory is empty when nothing
  exists below it. A file is moved by dropping the entries of the source and of the
  destination and listing the destination anew; a directory is moved with everything below
  it.
\<close>

definition inside :: "path \<Rightarrow> path \<Rightarrow> bool" where
  "inside p q = (take (length p) q = p)"

definition empty_dir :: "filesystem \<Rightarrow> path \<Rightarrow> bool" where
  "empty_dir fs d = list_all (\<lambda>(q, n). q = d \<or> \<not> inside d q) fs"

definition move_file :: "filesystem \<Rightarrow> path \<Rightarrow> path \<Rightarrow> pystr \<Rightarrow> filesystem" where
  "move_file fs src dst content =
     (dst, File content) # filter (\<lambda>(q, n). q \<noteq> src \<and> q \<noteq> dst) fs"

definition move_tree :: "filesystem \<Rightarrow> path \<Rightarrow> path \<Rightarrow> filesystem" where
  "move_tree fs src dst =
     map (\<lambda>(q, n). if inside src q then (dst @ drop (length src) q, n) else (q, n))
       (filter (\<lambda>(q, n). \<not> inside dst q) fs)"

text \<open>
  \<^verbatim>\<open>os.rename(src, dst)\<close>, which is also \<^verbatim>\<open>Path.rename\<close>. The source must exist and the
  directory of the destination must exist. On Windows an existing destination raises
  \<^verbatim>\<open>FileExistsError\<close>. On POSIX a file replaces an existing file silently and cannot replace
  a directory; a directory replaces an empty directory only, and cannot be moved below
  itself.
\<close>

definition os_rename ::
  "platform \<Rightarrow> filesystem \<Rightarrow> path \<Rightarrow> path \<Rightarrow> py_error + filesystem" where
  "os_rename pf fs src dst =
     (case map_of fs src of
        None \<Rightarrow> Inl FileNotFoundError
      | Some source \<Rightarrow>
          if src = dst then Inr fs
          else if \<not> is_dir fs (path_parent dst) then
            (if is_file fs (path_parent dst) then Inl NotADirectoryError
             else Inl FileNotFoundError)
          else if map_of fs dst \<noteq> None \<and> pf = Windows then Inl FileExistsError
          else
            (case source of
               File content \<Rightarrow>
                 (case map_of fs dst of
                    Some Dir \<Rightarrow> Inl IsADirectoryError
                  | _ \<Rightarrow> Inr (move_file fs src dst content))
             | Dir \<Rightarrow>
                 if inside src dst then Inl OSError
                 else
                   (case map_of fs dst of
                      None \<Rightarrow> Inr (move_tree fs src dst)
                    | Some (File content) \<Rightarrow> Inl NotADirectoryError
                    | Some Dir \<Rightarrow>
                        if empty_dir fs dst then Inr (move_tree fs src dst) else Inl OSError)))"

section \<open>create\_is.py: metadata lookup\<close>

text \<open>
  The common part of \<^verbatim>\<open>search_movie\<close> and \<^verbatim>\<open>search_tv_show\<close> after \<^verbatim>\<open>response.json()\<close>:
  \<^verbatim>\<open>if data.get('results'): result = data['results'][0]\<close>. The outcome is an exception, no
  result, or the first result.
\<close>

definition first_result :: "json \<Rightarrow> py_error + json option" where
  "first_result data =
     (case py_get data (py ''results'') JNull of
        Inl e \<Rightarrow> Inl e
      | Inr results \<Rightarrow>
          if truthy results then
            (case py_getitem data (py ''results'') of
               Inl e \<Rightarrow> Inl e
             | Inr rs \<Rightarrow> (case py_index0 rs of Inl e \<Rightarrow> Inl e | Inr result \<Rightarrow> Inr (Some result)))
          else Inr None)"

text \<open>
  The same for \<^verbatim>\<open>search_anime\<close>:
  \<^verbatim>\<open>media_list = data.get('data', {}).get('Page', {}).get('media', [])\<close>, then
  \<^verbatim>\<open>if media_list: result = media_list[0]\<close>.
\<close>

definition first_media :: "json \<Rightarrow> py_error + json option" where
  "first_media data =
     (case py_get data (py ''data'') (JDict []) of
        Inl e \<Rightarrow> Inl e
      | Inr d \<Rightarrow>
          (case py_get d (py ''Page'') (JDict []) of
             Inl e \<Rightarrow> Inl e
           | Inr page \<Rightarrow>
               (case py_get page (py ''media'') (JList []) of
                  Inl e \<Rightarrow> Inl e
                | Inr media_list \<Rightarrow>
                    if truthy media_list then
                      (case py_index0 media_list of
                         Inl e \<Rightarrow> Inl e
                       | Inr result \<Rightarrow> Inr (Some result))
                    else Inr None)))"

text \<open>The cache keys: \<^verbatim>\<open>f"movie_{title}_{year}"\<close>, \<^verbatim>\<open>f"tv_{title}_{year}"\<close>, \<^verbatim>\<open>f"anime_{title}"\<close>.\<close>

definition movie_cache_key :: "pystr \<Rightarrow> int option \<Rightarrow> pystr" where
  "movie_cache_key title year = py ''movie_'' @ title @ py ''_'' @ py_str_opt_int year"

definition tv_cache_key :: "pystr \<Rightarrow> int option \<Rightarrow> pystr" where
  "tv_cache_key title year = py ''tv_'' @ title @ py ''_'' @ py_str_opt_int year"

definition anime_cache_key :: "pystr \<Rightarrow> pystr" where
  "anime_cache_key title = py ''anime_'' @ title"

text \<open>The query parameters: the year is added \<^verbatim>\<open>if year\<close>, that is, when it is given and not 0.\<close>

definition query_params :: "pystr \<Rightarrow> pystr \<Rightarrow> int option \<Rightarrow> (pystr \<times> pystr) list" where
  "query_params year_key title year =
     (py ''query'', title) #
     (case year of
        None \<Rightarrow> []
      | Some y \<Rightarrow> if y \<noteq> 0 then [(year_key, py_str_int y)] else [])"

definition movie_request :: "pystr \<Rightarrow> int option \<Rightarrow> request" where
  "movie_request title year =
     Get (py ''https://api.themoviedb.org/3/search/movie'')
       (query_params (py ''release_year'') title year)"

definition tv_request :: "pystr \<Rightarrow> int option \<Rightarrow> request" where
  "tv_request title year =
     Get (py ''https://api.themoviedb.org/3/search/tv'')
       (query_params (py ''first_air_date_year'') title year)"

definition anime_request :: "pystr \<Rightarrow> request" where
  "anime_request title = Post (py ''https://graphql.anilist.co'') title"

text \<open>
  \<^verbatim>\<open>MediaOrganizer.search_movie\<close>. The value returned is the cached value, the first result
  (which is stored), or \<^verbatim>\<open>None\<close>.
\<close>

definition search_movie :: "env \<Rightarrow> pystr \<Rightarrow> int option \<Rightarrow> world \<Rightarrow> json \<times> world" where
  "search_movie ev title year w0 =
     (let w = emit (Call_search_movie title year) w0;
          cache_key = movie_cache_key title year
      in case cache w cache_key of
           Some cached \<Rightarrow> (cached, w)
         | None \<Rightarrow>
             (let request = movie_request title year;
                  w1 = emit (Http request) w
              in case http ev (trace w) request of
                   None \<Rightarrow> (JNull, emit Log_error w1)
                 | Some data \<Rightarrow>
                     (case first_result data of
                        Inl e \<Rightarrow> (JNull, emit Log_error w1)
                      | Inr None \<Rightarrow> (JNull, w1)
                      | Inr (Some result) \<Rightarrow>
                          (result, w1\<lparr>cache := (cache w1)(cache_key \<mapsto> result)\<rparr>))))"

text \<open>\<^verbatim>\<open>MediaOrganizer.search_tv_show\<close>\<close>

definition search_tv_show :: "env \<Rightarrow> pystr \<Rightarrow> int option \<Rightarrow> world \<Rightarrow> json \<times> world" where
  "search_tv_show ev title year w0 =
     (let w = emit (Call_search_tv_show title year) w0;
          cache_key = tv_cache_key title year
      in case cache w cache_key of
           Some cached \<Rightarrow> (cached, w)
         | None \<Rightarrow>
             (let request = tv_request title year;
                  w1 = emit (Http request) w
              in case http ev (trace w) request of
                   None \<Rightarrow> (JNull, emit Log_error w1)
                 | Some data \<Rightarrow>
                     (case first_result data of
                        Inl e \<Rightarrow> (JNull, emit Log_error w1)
                      | Inr None \<Rightarrow> (JNull, w1)
                      | Inr (Some result) \<Rightarrow>
                          (result, w1\<lparr>cache := (cache w1)(cache_key \<mapsto> result)\<rparr>))))"

text \<open>\<^verbatim>\<open>MediaOrganizer.search_anime\<close>\<close>

definition search_anime :: "env \<Rightarrow> pystr \<Rightarrow> world \<Rightarrow> json \<times> world" where
  "search_anime ev title w0 =
     (let w = emit (Call_search_anime title) w0;
          cache_key = anime_cache_key title
      in case cache w cache_key of
           Some cached \<Rightarrow> (cached, w)
         | None \<Rightarrow>
             (let request = anime_request title;
                  w1 = emit (Http request) w
              in case http ev (trace w) request of
                   None \<Rightarrow> (JNull, emit Log_error w1)
                 | Some data \<Rightarrow>
                     (case first_media data of
                        Inl e \<Rightarrow> (JNull, emit Log_error w1)
                      | Inr None \<Rightarrow> (JNull, w1)
                      | Inr (Some result) \<Rightarrow>
                          (result, w1\<lparr>cache := (cache w1)(cache_key \<mapsto> result)\<rparr>))))"


section \<open>create\_is.py: formatting and renaming\<close>

text \<open>A value inside an f-string: a string as it is, anything else through \<^verbatim>\<open>str\<close>.\<close>

definition py_format :: "env \<Rightarrow> json \<Rightarrow> pystr" where
  "py_format ev v = (case v of JStr s \<Rightarrow> s | _ \<Rightarrow> str_other ev v)"

text \<open>
  \<^verbatim>\<open>MediaOrganizer.format_movie_filename\<close>. The title is read first, then the release date is
  read and sliced, then the title is sanitized, which raises \<^verbatim>\<open>TypeError\<close> unless it is a string.
\<close>

definition format_movie_filename :: "env \<Rightarrow> json \<Rightarrow> pystr \<Rightarrow> py_error + pystr" where
  "format_movie_filename ev movie_info original_ext =
     (case py_get movie_info (py ''title'') (JStr (py ''Unknown'')) of
        Inl e \<Rightarrow> Inl e
      | Inr title \<Rightarrow>
          (case py_get movie_info (py ''release_date'') (JStr (py ''0000'')) of
             Inl e \<Rightarrow> Inl e
           | Inr release_date \<Rightarrow>
               (case py_slice4 release_date of
                  Inl e \<Rightarrow> Inl e
                | Inr year \<Rightarrow>
                    (case title of
                       JStr t \<Rightarrow>
                         Inr (organizer_sanitize_filename t @ py '' ('' @ py_format ev year @
                              py '')'' @ original_ext)
                     | _ \<Rightarrow> Inl TypeError))))"

text \<open>The name for a TV result: \<^verbatim>\<open>f"{self.sanitize_filename(tv['name'])} - S01E01{ext}"\<close>.\<close>

definition tv_filename :: "json \<Rightarrow> pystr \<Rightarrow> py_error + pystr" where
  "tv_filename tv ext =
     (case py_getitem tv (py ''name'') of
        Inl e \<Rightarrow> Inl e
      | Inr name \<Rightarrow>
          (case name of
             JStr n \<Rightarrow> Inr (organizer_sanitize_filename n @ py '' - S01E01'' @ ext)
           | _ \<Rightarrow> Inl TypeError))"

text \<open>
  The search logic of \<^verbatim>\<open>process_file\<close>: the movie lookup, and the TV lookup when the movie
  lookup gave nothing true. The outcome is \<open>None\<close> when there is no match (logged, and
  \<^verbatim>\<open>process_file\<close> returns \<^verbatim>\<open>False\<close>), otherwise the new name or the exception raised while
  building it.
\<close>

definition search_logic ::
  "env \<Rightarrow> pystr \<Rightarrow> pystr \<Rightarrow> int option \<Rightarrow> pystr \<Rightarrow> world \<Rightarrow> (py_error + pystr) option \<times> world" where
  "search_logic ev file_name title year ext w =
     (let (movie, w1) = search_movie ev title year w in
      if truthy movie then (Some (format_movie_filename ev movie ext), w1)
      else
        (let (tv, w2) = search_tv_show ev title year w1 in
         if truthy tv then (Some (tv_filename tv ext), w2)
         else (None, emit (Log_no_match file_name) w2)))"

text \<open>
  \<^verbatim>\<open>MediaOrganizer.process_file\<close>. Every exception is caught, logged, and makes the result
  \<^verbatim>\<open>False\<close>.
\<close>

definition process_file :: "env \<Rightarrow> path \<Rightarrow> bool \<Rightarrow> world \<Rightarrow> bool \<times> world" where
  "process_file ev file_path dry_run w =
     (case extract_title_year (decimals ev) (path_name file_path) of
        Inl e \<Rightarrow> (False, emit Log_error w)
      | Inr (title, year) \<Rightarrow>
          (let ext = path_suffix file_path;
               (found, w1) = search_logic ev (path_name file_path) title year ext w
           in case found of
                None \<Rightarrow> (False, w1)
              | Some (Inl e) \<Rightarrow> (False, emit Log_error w1)
              | Some (Inr new_name) \<Rightarrow>
                  (let new_path = path_join (path_parent file_path) new_name in
                   if dry_run then (True, emit (Print_dry_run (path_name file_path) new_name) w1)
                   else if \<not> path_exists (files w1) new_path then
                     (case os_rename (platform ev) (files w1) file_path new_path of
                        Inl e \<Rightarrow> (False, emit Log_error w1)
                      | Inr fs \<Rightarrow> (True, emit (Log_renamed new_name) (w1\<lparr>files := fs\<rparr>)))
                   else (False, w1))))"

text \<open>
  \<^verbatim>\<open>s.lower()\<close>, exact on ASCII and on the two other characters whose lower case holds an
  ASCII character (U+0130 and the Kelvin sign U+212A). Any other character is left as it is:
  its lower case is not ASCII either, so the test \<^verbatim>\<open>in exts\<close> below is the same.
\<close>

definition lower_char :: "int \<Rightarrow> pystr" where
  "lower_char c =
     (if 65 \<le> c \<and> c \<le> 90 then [c + 32]
      else if c = 0x130 then [0x69, 0x307]
      else if c = 0x212A then [0x6B]
      else [c])"

definition py_lower :: "pystr \<Rightarrow> pystr" where
  "py_lower s = concat (map lower_char s)"

definition exts :: "pystr list" where
  "exts = [py ''.mp4'', py ''.mkv'', py ''.avi'', py ''.mov'']"

text \<open>
  \<^verbatim>\<open>MediaOrganizer.process_directory\<close>. \<open>entries\<close> is what \<^verbatim>\<open>path.glob(pattern)\<close> yields. The
  video files among them are collected first; the pool's workers are run one after the
  other, in the order of the list.
\<close>

fun process_files :: "env \<Rightarrow> path list \<Rightarrow> bool \<Rightarrow> world \<Rightarrow> world" where
  "process_files ev [] dry_run w = w"
| "process_files ev (f # fs) dry_run w =
     process_files ev fs dry_run (snd (process_file ev f dry_run w))"

definition process_directory :: "env \<Rightarrow> path list \<Rightarrow> bool \<Rightarrow> world \<Rightarrow> world" where
  "process_directory ev entries dry_run w =
     process_files ev
       (filter (\<lambda>f. is_file (files w) f \<and> py_lower (path_suffix f) \<in> set exts) entries)
       dry_run w"

section \<open>plex\_converter.py: renaming\<close>

text \<open>\<^verbatim>\<open>process_file\<close> of the sanitizer tool; only \<^verbatim>\<open>OSError\<close> is caught, and nothing else is raised.\<close>

definition plex_process_file :: "env \<Rightarrow> path \<Rightarrow> bool \<Rightarrow> world \<Rightarrow> bool \<times> world" where
  "plex_process_file ev file_path dry_run w =
     (let original_name = path_name file_path;
          sanitized_name = plex_sanitize_filename original_name
      in if original_name = sanitized_name then (False, w)
         else if dry_run then (True, emit (Print_would_rename original_name sanitized_name) w)
         else
           (let new_path = path_join (path_parent file_path) sanitized_name in
            case os_rename (platform ev) (files w) file_path new_path of
              Inl e \<Rightarrow> (False, emit (Print_error_renaming original_name) w)
            | Inr fs \<Rightarrow>
                (True, emit (Print_renamed original_name sanitized_name) (w\<lparr>files := fs\<rparr>))))"

text \<open>
  \<^verbatim>\<open>process_directory\<close> of the sanitizer tool. \<open>entries\<close> is what \<^verbatim>\<open>rglob('*')\<close> or
  \<^verbatim>\<open>iterdir()\<close> yields; whether an entry is a file is asked when its turn comes. The listing
  itself is taken not to fail, so the error count stays 0.
\<close>

fun plex_process_entries :: "env \<Rightarrow> path list \<Rightarrow> bool \<Rightarrow> nat \<Rightarrow> world \<Rightarrow> nat \<times> world" where
  "plex_process_entries ev [] dry_run processed_count w = (processed_count, w)"
| "plex_process_entries ev (f # fs) dry_run processed_count w =
     (if is_file (files w) f then
        (let (ok, w1) = plex_process_file ev f dry_run w in
         plex_process_entries ev fs dry_run (if ok then processed_count + 1 else processed_count) w1)
      else plex_process_entries ev fs dry_run processed_count w)"

definition plex_process_directory ::
  "env \<Rightarrow> path list \<Rightarrow> bool \<Rightarrow> world \<Rightarrow> (nat \<times> nat) \<times> world" where
  "plex_process_directory ev entries dry_run w =
     (let (processed_count, w1) = plex_process_entries ev entries dry_run 0 w
      in ((processed_count, 0), w1))"

section \<open>Reading a trace\<close>

text \<open>The events a step added, and the lookup calls among some events.\<close>

definition new_events :: "world \<Rightarrow> world \<Rightarrow> event list" where
  "new_events w w1 = drop (length (trace w)) (trace w1)"

fun is_lookup :: "event \<Rightarrow> bool" where
  "is_lookup (Call_search_movie title year) = True"
| "is_lookup (Call_search_tv_show title year) = True"
| "is_lookup (Call_search_anime title) = True"
| "is_lookup e = False"

definition lookups :: "event list \<Rightarrow> event list" where
  "lookups es = filter is_lookup es"

section \<open>Example runs\<close>

text \<open>
  Providers: one whose first answer fails and whose later answers hold one movie, one that
  always holds that movie, one that knows a TV show only, and one whose list of results
  holds \<^verbatim>\<open>null\<close>. All on POSIX, with the digits of Unicode 14. Directories: one with a video file, one where the new name of
  that file is taken, and one with two files for the sanitizer tool.
\<close>

definition matrix_result :: "json" where
  "matrix_result =
     JDict [(py ''title'', JStr (py ''The Matrix'')), (py ''release_date'', JStr (py ''1999-03-31''))]"

definition matrix_data :: "json" where
  "matrix_data = JDict [(py ''results'', JList [matrix_result])]"


definition steady_env :: "env" where
  "steady_env =
     \<lparr>platform = Posix, http = (\<lambda>tr req. Some matrix_data), str_other = (\<lambda>v. py ''?''), decimals = unicode_14_zeros\<rparr>"

definition firefly_data :: "json" where
  "firefly_data = JDict [(py ''results'', JList [JDict [(py ''name'', JStr (py ''Firefly''))]])]"

definition tv_env :: "env" where
  "tv_env =
     \<lparr>platform = Posix,
      http = (\<lambda>tr req.
        case req of
          Get url params \<Rightarrow>
            if url = py ''https://api.themoviedb.org/3/search/tv'' then Some firefly_data
            else Some (JDict [(py ''results'', JList [])])
        | Post url search \<Rightarrow> None),
      str_other = (\<lambda>v. py ''?''), decimals = unicode_14_zeros\<rparr>"


definition matrix_file :: "path" where
  "matrix_file = [py ''videos'', py ''The.Matrix.(1999).mkv'']"

definition video_world :: "world" where
  "video_world =
     \<lparr>cache = Map.empty,
      files = [([py ''videos''], Dir), (matrix_file, File (py ''film''))],
      trace = []\<rparr>"

definition taken_world :: "world" where
  "taken_world =
     \<lparr>cache = Map.empty,
      files = [([py ''videos''], Dir), (matrix_file, File (py ''film'')),
               ([py ''videos'', py ''The Matrix (1999).mkv''], File (py ''other''))],
      trace = []\<rparr>"

definition clash_world :: "world" where
  "clash_world =
     \<lparr>cache = Map.empty,
      files = [([py ''videos''], Dir),
               ([py ''videos'', py ''a?.mp4''], File (py ''first'')),
               ([py ''videos'', py ''a_.mp4''], File (py ''second''))],
      trace = []\<rparr>"

text \<open>The file name \<^verbatim>\<open>a (19xx).mkv\<close> where each \<^verbatim>\<open>x\<close> is the Arabic-Indic digit nine, U+0669.\<close>

definition arabic_name :: "pystr" where
  "arabic_name = py ''a (19'' @ [0x669, 0x669] @ py '').mkv''"

text \<open>
  The year 1999 written with Arabic-Indic digits only (U+0661 is the digit one), and the
  file name \<^verbatim>\<open>a (xxxx).mkv\<close> that holds it.
\<close>

definition arabic_year :: "pystr" where
  "arabic_year = [0x661, 0x669, 0x669, 0x669]"

definition arabic_year_name :: "pystr" where
  "arabic_year_name = py ''a ('' @ arabic_year @ py '').mkv''"




section \<open>Properties of the string operations\<close>

lemma set_rstrip_where: "set (rstrip_where p s) \<subseteq> set s"
  unfolding rstrip_where_def using set_dropWhileD[of _ p "rev s"] by auto

lemma set_lstrip_where: "set (lstrip_where p s) \<subseteq> set s"
  unfolding lstrip_where_def using set_dropWhileD[of _ p s] by auto

lemma set_strip_where: "set (strip_where p s) \<subseteq> set s"
  unfolding strip_where_def using set_rstrip_where set_lstrip_where by fast

lemma set_collapse_underscores: "set (collapse_underscores s) \<subseteq> set s"
  by (induction s rule: collapse_underscores.induct) auto

lemma lstrip_where_fix: "s = [] \<or> \<not> p (hd s) \<Longrightarrow> lstrip_where p s = s"
  unfolding lstrip_where_def by (cases s) auto

lemma rstrip_where_fix: "s = [] \<or> \<not> p (last s) \<Longrightarrow> rstrip_where p s = s"
  unfolding rstrip_where_def by (cases s rule: rev_cases) auto

lemma lstrip_where_hd: "lstrip_where p s = [] \<or> \<not> p (hd (lstrip_where p s))"
  unfolding lstrip_where_def using hd_dropWhile[of p s] by auto

lemma rstrip_where_last: "rstrip_where p s = [] \<or> \<not> p (last (rstrip_where p s))"
  unfolding rstrip_where_def using hd_dropWhile[of p "rev s"] by (auto simp: last_rev)

lemma rstrip_where_hd:
  "s = [] \<or> \<not> p (hd s) \<Longrightarrow> rstrip_where p s = [] \<or> \<not> p (hd (rstrip_where p s))"
  by (metis last_appendR last_rev rev_is_Nil_conv rev_rev_ident
    rstrip_where_def rstrip_where_fix takeWhile_dropWhile_id)

lemma strip_where_ends:
  "strip_where p s = [] \<or> (\<not> p (hd (strip_where p s)) \<and> \<not> p (last (strip_where p s)))"
  unfolding strip_where_def
  using rstrip_where_hd[of "lstrip_where p s" p] lstrip_where_hd[of p s]
    rstrip_where_last[of p "lstrip_where p s"]
  by blast

lemma strip_where_fix:
  "s = [] \<or> (\<not> p (hd s) \<and> \<not> p (last s)) \<Longrightarrow> strip_where p s = s"
  unfolding strip_where_def by (auto simp add: lstrip_where_fix rstrip_where_fix)

lemma strip_where_idem: "strip_where p (strip_where p s) = strip_where p s"
  by (rule strip_where_fix) (rule strip_where_ends)

lemma organizer_sanitize_filename_clean:
  "set (organizer_sanitize_filename s) \<inter> set illegal_chars = {}"
  unfolding organizer_sanitize_filename_def py_strip_def
  using set_strip_where[of isspace "filter (\<lambda>c. c \<notin> set illegal_chars) s"] by auto

lemma organizer_sanitize_filename_idem:
  "organizer_sanitize_filename (organizer_sanitize_filename s) = organizer_sanitize_filename s"
proof -
  let ?t = "organizer_sanitize_filename s"
  have "filter (\<lambda>c. c \<notin> set illegal_chars) ?t = ?t"
    using organizer_sanitize_filename_clean[of s] by (auto simp: filter_id_conv)
  moreover have "py_strip ?t = ?t"
    unfolding organizer_sanitize_filename_def py_strip_def by (rule strip_where_idem)
  ultimately show ?thesis
    by (simp add: organizer_sanitize_filename_def[of ?t])
qed

lemma underscore_valid: "\<not> invalid_chars (ch (CHR ''_''))"
  by (simp add: invalid_chars_def illegal_chars_def is_control_def py_def ch_def)

lemma unnamed_file_valid: "c \<in> set (py ''unnamed_file'') \<Longrightarrow> \<not> invalid_chars c"
  by (auto simp add: invalid_chars_def illegal_chars_def is_control_def py_def)

lemma plex_sanitize_filename_clean:
  "c \<in> set (plex_sanitize_filename s) \<Longrightarrow> \<not> invalid_chars c"
proof -
  assume c: "c \<in> set (plex_sanitize_filename s)"
  let ?a = "map (\<lambda>c. if invalid_chars c then ch (CHR ''_'') else c) s"
  let ?d = "py_rstrip_chars (py ''_'') (collapse_underscores (py_strip_chars (py '' .'') ?a))"
  have a: "\<forall>x \<in> set ?a. \<not> invalid_chars x"
    using underscore_valid by auto
  have "set ?d \<subseteq> set ?a"
    unfolding py_rstrip_chars_def py_strip_chars_def
    using set_rstrip_where set_collapse_underscores set_strip_where by fast
  with a have d: "\<forall>x \<in> set ?d. \<not> invalid_chars x" by blast
  show ?thesis
  proof (cases "?d = []")
    case True
    then have "plex_sanitize_filename s = py ''unnamed_file''"
      by (simp add: plex_sanitize_filename_def Let_def)
    with c show ?thesis using unnamed_file_valid by metis
  next
    case False
    then have "plex_sanitize_filename s = ?d"
      by (simp add: plex_sanitize_filename_def Let_def)
    with c d show ?thesis by metis
  qed
qed

lemma plex_sanitize_filename_nonempty: "plex_sanitize_filename s \<noteq> []"
  by (simp add: plex_sanitize_filename_def Let_def py_def)

section \<open>Properties of sanitization\<close>

text \<open>
  Claim C2, as amended. The sanitizer tool's \<^verbatim>\<open>sanitize_filename\<close> never returns a name that
  contains one of the characters \<^verbatim>\<open><>:"/\|?*\<close> or a control character (codes 0 to 31), and
  never returns the empty string. The renamer's \<^verbatim>\<open>sanitize_filename\<close> never returns a name that
  contains one of \<^verbatim>\<open><>:"/\|?*\<close>; it has no rule for control characters and no placeholder.
\<close>

theorem sanitize_filename_output:
  "(\<forall>c \<in> set (plex_sanitize_filename s). c \<notin> set illegal_chars \<and> \<not> is_control c) \<and>
   plex_sanitize_filename s \<noteq> [] \<and>
   (\<forall>c \<in> set (organizer_sanitize_filename s). c \<notin> set illegal_chars)"
  using plex_sanitize_filename_clean[of _ s] plex_sanitize_filename_nonempty[of s]
    organizer_sanitize_filename_clean[of s]
  by (auto simp add: invalid_chars_def)

theorem sanitize_filename_output_witness:
  "plex_sanitize_filename (py [CHR ''a'', CHR 0x07, CHR ''?'', CHR ''b'']) = py ''a_b'' \<and>
   ch (CHR ''_'') \<notin> set illegal_chars \<and> \<not> is_control (ch (CHR ''_'')) \<and>
   organizer_sanitize_filename (py ''a?b'') = py ''ab'' \<and> ch (CHR ''b'') \<notin> set illegal_chars"
proof -
  have e1: "plex_sanitize_filename (py [CHR ''a'', CHR 0x07, CHR ''?'', CHR ''b'']) = py ''a_b''"
    by code_simp
  have e2: "organizer_sanitize_filename (py ''a?b'') = py ''ab''"
    by code_simp
  have "\<forall>c \<in> set (py ''a_b''). c \<notin> set illegal_chars \<and> \<not> is_control c"
    using sanitize_filename_output[of "py [CHR ''a'', CHR 0x07, CHR ''?'', CHR ''b'']"]
    unfolding e1 by blast
  moreover have "ch (CHR ''_'') \<in> set (py ''a_b'')"
    by (simp add: py_def ch_def)
  ultimately have u: "ch (CHR ''_'') \<notin> set illegal_chars \<and> \<not> is_control (ch (CHR ''_''))"
    by blast
  have "\<forall>c \<in> set (py ''ab''). c \<notin> set illegal_chars"
    using sanitize_filename_output[of "py ''a?b''"] unfolding e2 by blast
  moreover have "ch (CHR ''b'') \<in> set (py ''ab'')"
    by (simp add: py_def ch_def)
  ultimately have "ch (CHR ''b'') \<notin> set illegal_chars"
    by blast
  with u show ?thesis using e1 e2 by blast
qed

text \<open>
  Claim C2, as stated, fails for the renamer's \<^verbatim>\<open>sanitize_filename\<close>: the name \<^verbatim>\<open>?\<close> is
  sanitized to the empty string, and a control character (here BEL, code 7) inside a name
  is kept.
\<close>

theorem organizer_sanitize_filename_counterexample:
  "organizer_sanitize_filename (py ''?'') = [] \<and>
   organizer_sanitize_filename (py [CHR ''a'', CHR 0x07, CHR ''b'']) =
     py [CHR ''a'', CHR 0x07, CHR ''b''] \<and>
   is_control (ch (CHR 0x07))"
  by code_simp

text \<open>
  Claim C3 at the input \<^verbatim>\<open>Why ?\<close> of the sanitizer tool: the question mark becomes an
  underscore, the trailing underscore is removed after the spaces and dots were stripped, and
  the result \<^verbatim>\<open>Why \<close> keeps a trailing space. Sanitizing that result again gives \<^verbatim>\<open>Why\<close>, so
  the sanitizer tool's \<^verbatim>\<open>sanitize_filename\<close> is not idempotent there.
\<close>

theorem plex_sanitize_filename_twice:
  "plex_sanitize_filename (py ''Why ?'') = py ''Why '' \<and>
   plex_sanitize_filename (plex_sanitize_filename (py ''Why ?'')) = py ''Why''"
  by code_simp

text \<open>
  Claim C8, as amended. The sanitizer tool's \<^verbatim>\<open>sanitize_filename\<close> maps the name
  \<^verbatim>\<open>Show: Season 1?.mp4\<close> to \<^verbatim>\<open>Show_ Season 1_.mp4\<close>: the colon and the question mark are each
  replaced by an underscore, and nothing is trimmed.
\<close>

theorem plex_sanitize_filename_example:
  "plex_sanitize_filename (py ''Show: Season 1?.mp4'') = py ''Show_ Season 1_.mp4''"
  by code_simp

text \<open>Claim C8, as stated, fails: the result is not \<^verbatim>\<open>Show Season 1.mp4\<close>.\<close>

theorem plex_sanitize_filename_example_counterexample:
  "plex_sanitize_filename (py ''Show: Season 1?.mp4'') \<noteq> py ''Show Season 1.mp4''"
  by code_simp

section \<open>Properties of title and year extraction\<close>

lemma decimal_digit_range: "decimal_digit nd c = Some v \<Longrightarrow> 0 \<le> v \<and> v \<le> 9"
  by (auto simp add: decimal_digit_def find_Some_iff split: option.splits if_splits)

lemma digit_value_bounds: "0 \<le> digit_value nd c \<and> digit_value nd c \<le> 9"
  using decimal_digit_range[of nd c] by (cases "decimal_digit nd c") (simp_all add: digit_value_def)

lemma ascii_decimal: "ascii_digit c \<Longrightarrow> decimal_digit nd c = Some (c - 48)"
  by (simp add: ascii_digit_def ch_def decimal_digit_def)

lemma ascii_is_digit: "ascii_digit c \<Longrightarrow> is_digit nd c"
  by (simp add: is_digit_def ascii_decimal)

lemma ascii_digit_value: "ascii_digit c \<Longrightarrow> digit_value nd c = c - 48"
  by (simp add: digit_value_def ascii_decimal)

lemma ascii_literals:
  "ascii_digit (ch (CHR ''0''))" "ascii_digit (ch (CHR ''1''))"
  "ascii_digit (ch (CHR ''2''))" "ascii_digit (ch (CHR ''9''))"
  by (simp_all add: ascii_digit_def ch_def)

lemma digit_value_literals:
  "digit_value nd (ch (CHR ''0'')) = 0" "digit_value nd (ch (CHR ''1'')) = 1"
  "digit_value nd (ch (CHR ''2'')) = 2" "digit_value nd (ch (CHR ''9'')) = 9"
  using ascii_literals by (simp_all add: ascii_digit_value) (simp_all add: ch_def)

lemma year_range_arith:
  fixes a b c d :: int
  assumes "0 \<le> a \<and> a \<le> 9" "0 \<le> b \<and> b \<le> 9" "0 \<le> c \<and> c \<le> 9" "0 \<le> d \<and> d \<le> 9"
  shows "(1900 \<le> 1000 * a + 100 * b + 10 * c + d \<and> 1000 * a + 100 * b + 10 * c + d \<le> 2099)
     \<longleftrightarrow> (a = 1 \<and> b = 9) \<or> (a = 2 \<and> b = 0)"
proof
  assume r: "1900 \<le> 1000 * a + 100 * b + 10 * c + d \<and> 1000 * a + 100 * b + 10 * c + d \<le> 2099"
  have "1 \<le> a" using r assms by linarith
  moreover have "a \<le> 2" using r assms by linarith
  ultimately have "a = 1 \<or> a = 2" by linarith
  then show "(a = 1 \<and> b = 9) \<or> (a = 2 \<and> b = 0)"
  proof
    assume a: "a = 1"
    then have "9 \<le> b" using r assms by linarith
    with a assms show ?thesis by linarith
  next
    assume a: "a = 2"
    then have "b \<le> 0" using r assms by linarith
    with a assms show ?thesis by linarith
  qed
next
  assume "(a = 1 \<and> b = 9) \<or> (a = 2 \<and> b = 0)"
  then show "1900 \<le> 1000 * a + 100 * b + 10 * c + d \<and> 1000 * a + 100 * b + 10 * c + d \<le> 2099"
    using assms by auto
qed

lemma py_int_four:
  "py_int nd [a, b, c, d] =
     1000 * digit_value nd a + 100 * digit_value nd b + 10 * digit_value nd c + digit_value nd d"
  by (simp add: py_int_def)

lemma year_like_token_four:
  "year_like_token nd [a, b, c, d] \<longleftrightarrow>
     ((a = ch (CHR ''1'') \<and> b = ch (CHR ''9'')) \<or> (a = ch (CHR ''2'') \<and> b = ch (CHR ''0''))) \<and>
     is_digit nd c \<and> is_digit nd d"
  by (simp add: year_like_token_def py_def ch_def)

lemma length_four:
  assumes "length y = 4"
  obtains a b c d where "y = [a, b, c, d]"
proof -
  from assms have "\<exists>a b c d. y = [a, b, c, d]"
    by (simp add: length_Suc_conv eval_nat_numeral) blast
  then show ?thesis using that by blast
qed

text \<open>The number that such a token denotes lies in the range 1900 to 2099.\<close>

lemma year_like_range:
  assumes "year_like_token nd y"
  shows "1900 \<le> py_int nd y \<and> py_int nd y \<le> 2099"
proof -
  from assms have "length y = 4" by (simp add: year_like_token_def)
  then obtain a b c d where y: "y = [a, b, c, d]" by (rule length_four)
  from assms have "(digit_value nd a = 1 \<and> digit_value nd b = 9) \<or> (digit_value nd a = 2 \<and> digit_value nd b = 0)"
    unfolding y year_like_token_four using digit_value_literals by auto
  then show ?thesis
    unfolding y py_int_four
    using year_range_arith[of "digit_value nd a" "digit_value nd b" "digit_value nd c" "digit_value nd d"]
      digit_value_bounds
    by blast
qed

text \<open>
  Where every decimal digit is one of 0 to 9, the tokens of the code are the four-digit
  tokens in the range 1900 to 2099.
\<close>

lemma ascii_digit_value_eq:
  assumes "ascii_digit c"
  shows "digit_value nd c = 0 \<longleftrightarrow> c = ch (CHR ''0'')" "digit_value nd c = 1 \<longleftrightarrow> c = ch (CHR ''1'')"
    "digit_value nd c = 2 \<longleftrightarrow> c = ch (CHR ''2'')" "digit_value nd c = 9 \<longleftrightarrow> c = ch (CHR ''9'')"
  using assms by (auto simp add: ascii_digit_value ch_def)

lemma year_token_four:
  assumes "\<forall>x \<in> {c, d}. is_digit nd x \<longrightarrow> ascii_digit x"
  shows "year_token [a, b, c, d] \<longleftrightarrow> year_like_token nd [a, b, c, d]"
proof (cases "ascii_digit a \<and> ascii_digit b \<and> ascii_digit c \<and> ascii_digit d")
  case True
  have "(1900 \<le> py_int nd [a, b, c, d] \<and> py_int nd [a, b, c, d] \<le> 2099) \<longleftrightarrow>
      (digit_value nd a = 1 \<and> digit_value nd b = 9) \<or> (digit_value nd a = 2 \<and> digit_value nd b = 0)"
    unfolding py_int_four
    by (rule year_range_arith) (simp_all add: digit_value_bounds)
  moreover from True have "ascii_int [a, b, c, d] = py_int nd [a, b, c, d]"
    by (simp add: ascii_int_def py_int_def ascii_digit_value ch_def)
  ultimately show ?thesis using True
    by (simp add: year_token_def year_like_token_four ascii_digit_value_eq ascii_is_digit)
next
  case False
  then have "\<not> year_token [a, b, c, d]"
    by (auto simp add: year_token_def)
  moreover have "\<not> year_like_token nd [a, b, c, d]"
    using False assms ascii_literals unfolding year_like_token_four by auto
  ultimately show ?thesis by simp
qed

lemma length_ge_six:
  assumes "6 \<le> length t"
  obtains a b c d e f r where "t = a # b # c # d # e # f # r"
proof -
  from assms have "\<exists>a b c d e f r. t = a # b # c # d # e # f # r"
    by (simp add: Suc_le_length_iff eval_nat_numeral) blast
  then show ?thesis using that by blast
qed

lemma year_like_at_drop:
  "year_like_at nd s i \<longleftrightarrow>
     6 \<le> length (drop i s) \<and> drop i s ! 0 \<in> set (py ''(.[ '') \<and>
     year_like_token nd (take 4 (drop 1 (drop i s))) \<and> drop i s ! 5 \<in> set (py '').] '')"
proof (cases "i + 6 \<le> length s")
  case True
  then have "drop i s ! 0 = s ! i" "drop i s ! 5 = s ! (i + 5)" "6 \<le> length (drop i s)"
    by simp_all
  with True show ?thesis
    unfolding year_like_at_def by (simp del: set_simps)
next
  case False
  then have "\<not> 6 \<le> length (drop i s)" by simp
  with False show ?thesis
    unfolding year_like_at_def by blast
qed

lemma delimited_year_at_drop:
  "delimited_year_at s i \<longleftrightarrow>
     6 \<le> length (drop i s) \<and> drop i s ! 0 \<in> set (py ''(.[ '') \<and>
     year_token (take 4 (drop 1 (drop i s))) \<and> drop i s ! 5 \<in> set (py '').] '')"
proof (cases "i + 6 \<le> length s")
  case True
  then have "drop i s ! 0 = s ! i" "drop i s ! 5 = s ! (i + 5)" "6 \<le> length (drop i s)"
    by simp_all
  with True show ?thesis
    unfolding delimited_year_at_def by (simp del: set_simps)
next
  case False
  then have "\<not> 6 \<le> length (drop i s)" by simp
  with False show ?thesis
    unfolding delimited_year_at_def by blast
qed

lemma year_pattern_at_six:
  "year_pattern_at nd (a # b # c # d # e # f # r) \<longleftrightarrow>
     a \<in> set (py ''(.[ '') \<and> year_like_token nd [b, c, d, e] \<and> f \<in> set (py '').] '')"
  unfolding year_like_token_four year_pattern_at_def
  by (simp add: py_def ch_def del: set_simps)

lemma year_like_at_iff: "year_like_at nd s i \<longleftrightarrow> year_pattern_at nd (drop i s)"
proof (cases "6 \<le> length (drop i s)")
  case True
  then obtain a b c d e f r where t: "drop i s = a # b # c # d # e # f # r"
    by (rule length_ge_six)
  show ?thesis
    unfolding year_like_at_drop t year_pattern_at_six by (simp del: set_simps)
next
  case False
  then show ?thesis
    unfolding year_like_at_drop by (simp add: year_pattern_at_def)
qed

lemma delimited_year_at_iff:
  assumes "\<forall>c \<in> set s. is_digit nd c \<longrightarrow> ascii_digit c"
  shows "delimited_year_at s i \<longleftrightarrow> year_like_at nd s i"
proof (cases "6 \<le> length (drop i s)")
  case True
  then obtain a b c d e f r where t: "drop i s = a # b # c # d # e # f # r"
    by (rule length_ge_six)
  have "set (drop i s) \<subseteq> set s" by (rule set_drop_subset)
  with t have "d \<in> set s" "e \<in> set s" by auto
  with assms have "\<forall>x \<in> {d, e}. is_digit nd x \<longrightarrow> ascii_digit x" by blast
  then have "year_token [b, c, d, e] \<longleftrightarrow> year_like_token nd [b, c, d, e]"
    by (rule year_token_four)
  then show ?thesis
    unfolding year_like_at_drop delimited_year_at_drop t by (simp del: set_simps)
next
  case False
  then show ?thesis
    unfolding year_like_at_drop delimited_year_at_drop by simp
qed

lemma contains_year_like_iff: "contains_year_like nd s \<longleftrightarrow> (\<exists>j<length s. year_like_at nd s j)"
  by (auto simp add: contains_year_like_def list_ex_iff)

lemma re_search_year_Some:
  "re_search_year nd s = Some i \<longleftrightarrow>
     year_pattern_at nd (drop i s) \<and> (\<forall>j<i. \<not> year_pattern_at nd (drop j s))"
proof (induction s arbitrary: i)
  case Nil
  then show ?case by (simp add: year_pattern_at_def)
next
  case (Cons c s)
  show ?case
  proof (cases "year_pattern_at nd (c # s)")
    case True
    then show ?thesis by (cases i) auto
  next
    case False
    show ?thesis
    proof (cases i)
      case 0
      with False show ?thesis by simp
    next
      case (Suc k)
      have "(\<forall>j<Suc k. \<not> year_pattern_at nd (drop j (c # s))) \<longleftrightarrow>
            (\<forall>j<k. \<not> year_pattern_at nd (drop j s))"
        using False by (auto simp add: less_Suc_eq_0_disj)
      with False Suc Cons.IH[of k] show ?thesis by auto
    qed
  qed
qed

lemma re_search_year_None:
  "re_search_year nd s = None \<longleftrightarrow> (\<forall>j<length s. \<not> year_pattern_at nd (drop j s))"
proof (induction s)
  case Nil
  then show ?case by simp
next
  case (Cons c s)
  have "(\<forall>j<length (c # s). \<not> year_pattern_at nd (drop j (c # s))) \<longleftrightarrow>
        \<not> year_pattern_at nd (c # s) \<and> (\<forall>j<length s. \<not> year_pattern_at nd (drop j s))"
    by (auto simp add: less_Suc_eq_0_disj)
  with Cons show ?case by auto
qed

lemma delimiters_no_digits:
  "decimal_digit nd (ch (CHR ''('')) = None" "decimal_digit nd (ch (CHR ''.'')) = None"
  "decimal_digit nd (ch (CHR ''['')) = None" "decimal_digit nd (ch (CHR '' '')) = None"
  by (simp_all add: decimal_digit_def ch_def)

lemma delimiter_not_digit: "c \<in> set (py ''(.[ '') \<Longrightarrow> \<not> is_digit nd c"
proof -
  assume "c \<in> set (py ''(.[ '')"
  then have "c = ch (CHR ''('') \<or> c = ch (CHR ''.'') \<or> c = ch (CHR ''['') \<or> c = ch (CHR '' '')"
    by (simp add: py_def ch_def)
  then show ?thesis
    unfolding is_digit_def using delimiters_no_digits by auto
qed

lemma re_search_digits4_group:
  assumes "year_pattern_at nd t"
  shows "re_search_digits4 nd (take 6 t) = Some (take 4 (drop 1 t))"
proof -
  from assms have "6 \<le> length t" by (simp add: year_pattern_at_def)
  then obtain a b c d e f r where t: "t = a # b # c # d # e # f # r"
    by (rule length_ge_six)
  from assms have y: "year_like_token nd [b, c, d, e]" and a: "a \<in> set (py ''(.[ '')"
    unfolding t year_pattern_at_six by blast+
  from a have "\<not> is_digit nd a" by (rule delimiter_not_digit)
  moreover from y have "is_digit nd b \<and> is_digit nd c \<and> is_digit nd d \<and> is_digit nd e"
    unfolding year_like_token_four using ascii_literals ascii_is_digit by auto
  ultimately show ?thesis by (simp add: t)
qed

lemma extract_title_year_match:
  assumes "re_search_year nd (path_stem (Path filename)) = Some i"
  shows "extract_title_year nd filename =
     Inr (py_strip (py_replace_char (ch (CHR ''.'')) (ch (CHR '' ''))
            (take i (path_stem (Path filename)) @ drop (i + 6) (path_stem (Path filename)))),
          Some (py_int nd (take 4 (drop (i + 1) (path_stem (Path filename))))))"
proof -
  from assms have "year_pattern_at nd (drop i (path_stem (Path filename)))"
    by (simp add: re_search_year_Some)
  then have "re_search_digits4 nd (take 6 (drop i (path_stem (Path filename)))) =
      Some (take 4 (drop 1 (drop i (path_stem (Path filename)))))"
    by (rule re_search_digits4_group)
  with assms show ?thesis
    by (simp add: extract_title_year_def Let_def add.commute)
qed

lemma extract_title_year_no_match:
  assumes "re_search_year nd (path_stem (Path filename)) = None"
  shows "extract_title_year nd filename =
     Inr (py_strip (py_replace_char (ch (CHR ''.'')) (ch (CHR '' '')) (path_stem (Path filename))),
          None)"
  using assms by (simp add: extract_title_year_def Let_def)

lemma extract_title_year_total: "\<exists>title year. extract_title_year nd filename = Inr (title, year)"
proof (cases "re_search_year nd (path_stem (Path filename))")
  case None
  then show ?thesis using extract_title_year_no_match by blast
next
  case (Some i)
  then show ?thesis using extract_title_year_match by blast
qed

text \<open>
  Claim C1, as amended, for every file name and every table \<open>nd\<close> of the decimal digits
  beyond ASCII. Let the stem of the file name contain, between an opening delimiter (parenthesis, bracket, dot or space) at position \<open>i\<close> and a closing
  one, a token of \<^verbatim>\<open>19\<close> or \<^verbatim>\<open>20\<close> followed by two decimal digits of any script, and let \<open>i\<close>
  be the first such position. Then \<^verbatim>\<open>extract_title_year\<close> returns the number the token
  denotes, which is in the range 1900 to 2099, as the year, and as the title the stem
  without the six characters of the token and its delimiters, with dots replaced by spaces,
  trimmed. If the stem contains no such token, it returns no year, and as the title the
  stem with dots replaced by spaces, trimmed. On a stem whose decimal digits are all among
  0 to 9, these tokens are exactly the four-digit tokens in the range 1900 to 2099 between
  such delimiters.
\<close>

theorem extract_title_year_spec:
  "(year_like_at nd (path_stem (Path filename)) i \<and>
    (\<forall>j<i. \<not> year_like_at nd (path_stem (Path filename)) j) \<longrightarrow>
      extract_title_year nd filename =
        Inr (py_strip (py_replace_char (ch (CHR ''.'')) (ch (CHR '' ''))
               (take i (path_stem (Path filename)) @ drop (i + 6) (path_stem (Path filename)))),
             Some (py_int nd (take 4 (drop (i + 1) (path_stem (Path filename)))))) \<and>
      1900 \<le> py_int nd (take 4 (drop (i + 1) (path_stem (Path filename)))) \<and>
      py_int nd (take 4 (drop (i + 1) (path_stem (Path filename)))) \<le> 2099) \<and>
   (\<not> contains_year_like nd (path_stem (Path filename)) \<longrightarrow>
      extract_title_year nd filename =
        Inr (py_strip (py_replace_char (ch (CHR ''.'')) (ch (CHR '' ''))
               (path_stem (Path filename))), None)) \<and>
   ((\<forall>c \<in> set (path_stem (Path filename)). is_digit nd c \<longrightarrow> ascii_digit c) \<longrightarrow>
      (delimited_year_at (path_stem (Path filename)) k \<longleftrightarrow>
       year_like_at nd (path_stem (Path filename)) k))"
proof (intro conjI impI)
  assume a: "year_like_at nd (path_stem (Path filename)) i \<and>
    (\<forall>j<i. \<not> year_like_at nd (path_stem (Path filename)) j)"
  then have "re_search_year nd (path_stem (Path filename)) = Some i"
    by (simp add: re_search_year_Some year_like_at_iff)
  then show "extract_title_year nd filename =
        Inr (py_strip (py_replace_char (ch (CHR ''.'')) (ch (CHR '' ''))
               (take i (path_stem (Path filename)) @ drop (i + 6) (path_stem (Path filename)))),
             Some (py_int nd (take 4 (drop (i + 1) (path_stem (Path filename))))))"
    by (rule extract_title_year_match)
  from a have "year_like_token nd (take 4 (drop (i + 1) (path_stem (Path filename))))"
    by (simp add: year_like_at_def)
  then show "1900 \<le> py_int nd (take 4 (drop (i + 1) (path_stem (Path filename))))"
    and "py_int nd (take 4 (drop (i + 1) (path_stem (Path filename)))) \<le> 2099"
    using year_like_range by blast+
next
  assume "\<not> contains_year_like nd (path_stem (Path filename))"
  then have "re_search_year nd (path_stem (Path filename)) = None"
    by (simp add: re_search_year_None contains_year_like_iff year_like_at_iff)
  then show "extract_title_year nd filename =
        Inr (py_strip (py_replace_char (ch (CHR ''.'')) (ch (CHR '' ''))
               (path_stem (Path filename))), None)"
    by (rule extract_title_year_no_match)
next
  assume "\<forall>c \<in> set (path_stem (Path filename)). is_digit nd c \<longrightarrow> ascii_digit c"
  then show "delimited_year_at (path_stem (Path filename)) k \<longleftrightarrow>
       year_like_at nd (path_stem (Path filename)) k"
    by (rule delimited_year_at_iff)
qed

text \<open>
  Two file names: in \<^verbatim>\<open>Blade.Runner.(2049).[2017].mkv\<close> the first token is \<^verbatim>\<open>(2049)\<close>, at position
  13 of the stem; in \<^verbatim>\<open>The.Matrix.1999.mkv\<close> the year ends the stem, no delimiter follows it, and
  no year is returned.
\<close>

theorem extract_title_year_spec_witness:
  "year_like_at unicode_14_zeros (py ''Blade.Runner.(2049).[2017]'') 13 \<and>
   list_all (\<lambda>j. \<not> year_like_at unicode_14_zeros (py ''Blade.Runner.(2049).[2017]'') j) [0..<13] \<and>
   extract_title_year unicode_14_zeros (py ''Blade.Runner.(2049).[2017].mkv'') =
     Inr (py ''Blade Runner  [2017]'', Some 2049) \<and>
   delimited_year_at (py ''Blade.Runner.(2049).[2017]'') 13 \<and>
   \<not> contains_year_like unicode_14_zeros (py ''The.Matrix.1999'') \<and>
   extract_title_year unicode_14_zeros (py ''The.Matrix.1999.mkv'') = Inr (py ''The Matrix 1999'', None)"
proof -
  let ?f = "py ''Blade.Runner.(2049).[2017].mkv''" and ?g = "py ''The.Matrix.1999.mkv''"
  let ?s = "py ''Blade.Runner.(2049).[2017]''"
  have stem_f: "path_stem (Path ?f) = ?s"
    by code_simp
  have stem_g: "path_stem (Path ?g) = py ''The.Matrix.1999''"
    by code_simp
  have at: "year_like_at unicode_14_zeros ?s 13"
    by code_simp
  have first: "list_all (\<lambda>j. \<not> year_like_at unicode_14_zeros ?s j) [0..<13]"
    by code_simp
  have none: "\<not> contains_year_like unicode_14_zeros (py ''The.Matrix.1999'')"
    by code_simp
  have ascii: "list_all (\<lambda>c. ascii_digit c \<or> \<not> is_digit unicode_14_zeros c) ?s"
    by code_simp
  have title_f: "py_strip (py_replace_char (ch (CHR ''.'')) (ch (CHR '' ''))
      (take 13 ?s @ drop (13 + 6) ?s)) = py ''Blade Runner  [2017]''"
    by code_simp
  have year_f: "py_int unicode_14_zeros (take 4 (drop (13 + 1) ?s)) = 2049"
    by code_simp
  have title_g: "py_strip (py_replace_char (ch (CHR ''.'')) (ch (CHR '' '')) (py ''The.Matrix.1999'')) =
      py ''The Matrix 1999''"
    by code_simp
  note thm_f = extract_title_year_spec[where nd = unicode_14_zeros and filename = ?f and i = 13 and k = 13, unfolded stem_f title_f year_f]
  note thm_g = extract_title_year_spec[where nd = unicode_14_zeros and filename = ?g and i = 0 and k = 0, unfolded stem_g title_g]
  have "\<forall>j<13. \<not> year_like_at unicode_14_zeros ?s j"
    using first by (simp add: list_all_iff)
  with at thm_f have "extract_title_year unicode_14_zeros ?f = Inr (py ''Blade Runner  [2017]'', Some 2049)"
    by blast
  moreover have "\<forall>c \<in> set ?s. is_digit unicode_14_zeros c \<longrightarrow> ascii_digit c"
    using ascii unfolding list_all_iff by blast
  with at thm_f have "delimited_year_at ?s 13"
    by blast
  moreover from none thm_g have "extract_title_year unicode_14_zeros ?g = Inr (py ''The Matrix 1999'', None)"
    by blast
  ultimately show ?thesis using at first none by blast
qed

text \<open>
  Claim C1, as stated, fails for the file name \<^verbatim>\<open>a (19xx).mkv\<close> where each \<^verbatim>\<open>x\<close> is the
  Arabic-Indic digit nine: its stem contains no four-digit token of the digits 0 to 9, and
  yet the year 1999 is returned, because \<^verbatim>\<open>\d\<close> and \<^verbatim>\<open>int\<close> take the decimal digits of every
  script. If the digits of every script count as digits of a token, it fails for the file
  name \<^verbatim>\<open>a (xxxx).mkv\<close> where the four characters are the Arabic-Indic digits of 1999: they
  are four decimal digits, \<^verbatim>\<open>int\<close> reads them as 1999, and yet no year is returned, because
  the pattern asks for the characters \<^verbatim>\<open>19\<close> or \<^verbatim>\<open>20\<close> themselves.
\<close>

theorem extract_title_year_counterexample:
  "\<not> contains_delimited_year (path_stem (Path arabic_name)) \<and>
   extract_title_year unicode_14_zeros arabic_name = Inr (py ''a'', Some 1999) \<and>
   list_all (is_digit unicode_14_zeros) arabic_year \<and>
   py_int unicode_14_zeros arabic_year = 1999 \<and>
   extract_title_year unicode_14_zeros arabic_year_name =
     Inr (py ''a ('' @ arabic_year @ py '')'', None)"
  by code_simp
section \<open>Properties of the cache keys\<close>

















section \<open>Properties of the metadata lookups\<close>

lemma emit_simps:
  "cache (emit e w) = cache w" "files (emit e w) = files w" "trace (emit e w) = trace w @ [e]"
  by (simp_all add: emit_def)

lemma search_movie_files: "files (snd (search_movie ev t y w)) = files w"
  by (simp add: search_movie_def emit_simps Let_def split: option.splits sum.splits)





lemma search_movie_keeps:
  "cache w k = Some v \<Longrightarrow> cache (snd (search_movie ev t y w)) k = Some v"
  by (auto simp add: search_movie_def emit_simps Let_def split: option.splits sum.splits)

lemma search_movie_trace:
  "\<exists>es. trace (snd (search_movie ev t y w)) = trace w @ Call_search_movie t y # es \<and> lookups es = []"
  by (auto simp add: search_movie_def emit_simps lookups_def Let_def split: option.splits sum.splits)


lemma search_tv_show_files: "files (snd (search_tv_show ev t y w)) = files w"
  by (simp add: search_tv_show_def emit_simps Let_def split: option.splits sum.splits)





lemma search_tv_show_keeps:
  "cache w k = Some v \<Longrightarrow> cache (snd (search_tv_show ev t y w)) k = Some v"
  by (auto simp add: search_tv_show_def emit_simps Let_def split: option.splits sum.splits)

lemma search_tv_show_trace:
  "\<exists>es. trace (snd (search_tv_show ev t y w)) = trace w @ Call_search_tv_show t y # es \<and> lookups es = []"
  by (auto simp add: search_tv_show_def emit_simps lookups_def Let_def split: option.splits sum.splits)


lemma search_anime_files: "files (snd (search_anime ev t w)) = files w"
  by (simp add: search_anime_def emit_simps Let_def split: option.splits sum.splits)






lemma search_anime_trace:
  "\<exists>es. trace (snd (search_anime ev t w)) = trace w @ Call_search_anime t # es \<and> lookups es = []"
  by (auto simp add: search_anime_def emit_simps lookups_def Let_def split: option.splits sum.splits)


lemma matrix_key: "movie_cache_key (py ''The Matrix'') (Some 1999) = py ''movie_The Matrix_1999''"
  by code_simp

lemma matrix_first_result: "first_result matrix_data = Inr (Some matrix_result)"
  by code_simp


lemma empty_first_result: "first_result (JDict [(py ''results'', JList [])]) = Inr None"
  by code_simp







section \<open>Properties of renaming\<close>

lemma lookups_append: "lookups (xs @ ys) = lookups xs @ lookups ys"
  by (simp add: lookups_def)

lemma search_logic_files: "files (snd (search_logic ev n t y ext w)) = files w"
proof -
  obtain m w1 where sm: "search_movie ev t y w = (m, w1)" by force
  obtain tv w2 where st: "search_tv_show ev t y w1 = (tv, w2)" by force
  have "files w1 = files w" using search_movie_files[of ev t y w] sm by simp
  moreover have "files w2 = files w1" using search_tv_show_files[of ev t y w1] st by simp
  ultimately show ?thesis
    by (simp add: search_logic_def sm st emit_simps)
qed

lemma search_logic_trace:
  "\<exists>es. trace (snd (search_logic ev n t y ext w)) = trace w @ es \<and>
     lookups es =
       (if truthy (fst (search_movie ev t y w)) then [Call_search_movie t y]
        else [Call_search_movie t y, Call_search_tv_show t y])"
proof -
  obtain m w1 where sm: "search_movie ev t y w = (m, w1)" by force
  obtain tv w2 where st: "search_tv_show ev t y w1 = (tv, w2)" by force
  obtain es1 where es1: "trace w1 = trace w @ Call_search_movie t y # es1" "lookups es1 = []"
    using search_movie_trace[of ev t y w] sm by auto
  obtain es2 where es2: "trace w2 = trace w1 @ Call_search_tv_show t y # es2" "lookups es2 = []"
    using search_tv_show_trace[of ev t y w1] st by auto
  show ?thesis
  proof (cases "truthy m")
    case True
    then have "snd (search_logic ev n t y ext w) = w1"
      by (simp add: search_logic_def sm)
    with True es1 sm show ?thesis by (simp add: lookups_def)
  next
    case False
    then have "trace (snd (search_logic ev n t y ext w)) = trace w2 \<or>
        trace (snd (search_logic ev n t y ext w)) = trace w2 @ [Log_no_match n]"
      by (simp add: search_logic_def sm st emit_simps)
    with False es1 es2 sm show ?thesis by (auto simp add: lookups_def)
  qed
qed

lemma process_file_trace:
  assumes "extract_title_year (decimals ev) (path_name p) = Inr (t, y)"
  shows "\<exists>es. trace (snd (process_file ev p dry w)) = trace w @ es \<and>
     lookups es =
       (if truthy (fst (search_movie ev t y w)) then [Call_search_movie t y]
        else [Call_search_movie t y, Call_search_tv_show t y])"
proof -
  obtain found w1 where sl: "search_logic ev (path_name p) t y (path_suffix p) w = (found, w1)"
    by force
  obtain es where es: "trace w1 = trace w @ es"
    "lookups es =
       (if truthy (fst (search_movie ev t y w)) then [Call_search_movie t y]
        else [Call_search_movie t y, Call_search_tv_show t y])"
    using search_logic_trace[of ev "path_name p" t y "path_suffix p" w] sl by auto
  have "\<exists>e. trace (snd (process_file ev p dry w)) = trace w1 @ e \<and> lookups e = []"
    by (auto simp add: process_file_def assms sl emit_simps lookups_def Let_def
        split: option.splits sum.splits)
  then obtain e where "trace (snd (process_file ev p dry w)) = trace w @ (es @ e)" "lookups e = []"
    using es(1) by auto
  with es(2) show ?thesis by (metis lookups_append append_Nil2)
qed

lemma process_file_dry_run: "files (snd (process_file ev p True w)) = files w"
proof (cases "extract_title_year (decimals ev) (path_name p)")
  case (Inl e)
  then show ?thesis by (simp add: process_file_def emit_simps)
next
  case (Inr ty)
  obtain t y where ty: "ty = (t, y)" by force
  obtain found w1 where sl: "search_logic ev (path_name p) t y (path_suffix p) w = (found, w1)"
    by force
  have "files w1 = files w"
    using search_logic_files[of ev "path_name p" t y "path_suffix p" w] sl by simp
  then show ?thesis
    by (simp add: process_file_def Inr ty sl emit_simps Let_def split: option.splits sum.splits)
qed

lemma process_files_dry_run: "files (process_files ev fs True w) = files w"
  by (induction fs arbitrary: w) (simp_all add: process_file_dry_run)

lemma plex_process_file_dry_run: "files (snd (plex_process_file ev p True w)) = files w"
  by (simp add: plex_process_file_def emit_simps Let_def)

lemma plex_process_entries_dry_run:
  "files (snd (plex_process_entries ev fs True n w)) = files w"
proof (induction fs arbitrary: n w)
  case Nil
  then show ?case by simp
next
  case (Cons f fs)
  obtain ok w1 where pf: "plex_process_file ev f True w = (ok, w1)" by force
  then have "files w1 = files w" using plex_process_file_dry_run[of ev f w] by simp
  with Cons pf show ?case by simp
qed

text \<open>
  Claim C5. With \<^verbatim>\<open>dry_run=True\<close>, the files that exist and their names are the same after
  the run as before it: for \<^verbatim>\<open>process_file\<close> and \<^verbatim>\<open>process_directory\<close> of the renamer and of
  the sanitizer tool, whatever the provider answers.
\<close>

theorem dry_run_renames_nothing:
  "files (snd (process_file ev p True w)) = files w \<and>
   files (process_directory ev entries True w) = files w \<and>
   files (snd (plex_process_file ev p True w)) = files w \<and>
   files (snd (plex_process_directory ev entries True w)) = files w"
proof -
  obtain n w1 where pe: "plex_process_entries ev entries True 0 w = (n, w1)" by force
  then have "files w1 = files w" using plex_process_entries_dry_run[of ev entries 0 w] by simp
  then show ?thesis
    by (simp add: process_file_dry_run process_directory_def process_files_dry_run
        plex_process_file_dry_run plex_process_directory_def pe)
qed

lemma process_file_existing_target:
  assumes "extract_title_year (decimals ev) (path_name p) = Inr (t, y)"
    and "search_logic ev (path_name p) t y (path_suffix p) w = (Some (Inr new_name), w1)"
    and "path_exists (files w1) (path_join (path_parent p) new_name)"
  shows "process_file ev p False w = (False, w1) \<and> files w1 = files w"
  using assms search_logic_files[of ev "path_name p" t y "path_suffix p" w]
  by (auto simp add: process_file_def Let_def)

text \<open>
  Claim C9. In the sanitizer tool, when the name of the file is a fixed point of
  \<^verbatim>\<open>sanitize_filename\<close>, \<^verbatim>\<open>process_file\<close> returns \<^verbatim>\<open>False\<close> and changes nothing (no rename, no
  output), in dry-run mode and in apply mode.
\<close>

theorem plex_process_file_fixed_point:
  "plex_sanitize_filename (path_name p) = path_name p \<Longrightarrow>
     plex_process_file ev p dry_run w = (False, w)"
  by (simp add: plex_process_file_def Let_def)

text \<open>
  Claim C6. \<^verbatim>\<open>process_file\<close> of the renamer always extracts a title and a year, and the lookups
  it calls are, in this order: \<^verbatim>\<open>search_movie\<close> alone when that returns a true value (a result
  that is not empty), and \<^verbatim>\<open>search_movie\<close> followed by \<^verbatim>\<open>search_tv_show\<close> otherwise.
  \<^verbatim>\<open>search_anime\<close> is never among them.
\<close>

theorem process_file_fallback:
  "\<exists>title year. extract_title_year (decimals ev) (path_name p) = Inr (title, year) \<and>
     lookups (new_events w (snd (process_file ev p dry_run w))) =
       (if truthy (fst (search_movie ev title year w)) then [Call_search_movie title year]
        else [Call_search_movie title year, Call_search_tv_show title year])"
proof -
  obtain t y where ty: "extract_title_year (decimals ev) (path_name p) = Inr (t, y)"
    using extract_title_year_total by blast
  from process_file_trace[OF this, of dry_run w]
  obtain es where "trace (snd (process_file ev p dry_run w)) = trace w @ es"
    "lookups es =
       (if truthy (fst (search_movie ev t y w)) then [Call_search_movie t y]
        else [Call_search_movie t y, Call_search_tv_show t y])"
    by blast
  then have "lookups (new_events w (snd (process_file ev p dry_run w))) =
       (if truthy (fst (search_movie ev t y w)) then [Call_search_movie t y]
        else [Call_search_movie t y, Call_search_tv_show t y])"
    by (simp add: new_events_def)
  with ty show ?thesis by blast
qed

text \<open>
  Claim C10. For a movie info with a title \<open>t\<close>: when \<^verbatim>\<open>release_date\<close> is a string, the year in
  the name is its first four characters; when the key \<^verbatim>\<open>release_date\<close> is absent, the year is
  \<^verbatim>\<open>0000\<close>; when \<^verbatim>\<open>release_date\<close> is the empty string, the name has the form
  \<^verbatim>\<open>Title ().ext\<close> with an empty year.
\<close>

theorem format_movie_filename_year:
  "(map_of items (py ''release_date'') = Some (JStr d) \<and>
    py_get (JDict items) (py ''title'') (JStr (py ''Unknown'')) = Inr (JStr t) \<longrightarrow>
      format_movie_filename ev (JDict items) ext =
        Inr (organizer_sanitize_filename t @ py '' ('' @ take 4 d @ py '')'' @ ext)) \<and>
   (map_of items (py ''release_date'') = None \<and>
    py_get (JDict items) (py ''title'') (JStr (py ''Unknown'')) = Inr (JStr t) \<longrightarrow>
      format_movie_filename ev (JDict items) ext =
        Inr (organizer_sanitize_filename t @ py '' (0000)'' @ ext)) \<and>
   (map_of items (py ''release_date'') = Some (JStr []) \<and>
    py_get (JDict items) (py ''title'') (JStr (py ''Unknown'')) = Inr (JStr t) \<longrightarrow>
      format_movie_filename ev (JDict items) ext =
        Inr (organizer_sanitize_filename t @ py '' ()'' @ ext))"
proof -
  have "take 4 (py ''0000'') = py ''0000''"
    by (simp add: py_def)
  moreover have "py '' ('' @ py ''0000'' @ py '')'' @ ext = py '' (0000)'' @ ext"
    "py '' ('' @ py '')'' @ ext = py '' ()'' @ ext"
    by (simp_all add: py_def)
  ultimately show ?thesis
    by (simp add: format_movie_filename_def py_get_def py_slice4_def py_format_def)
qed

lemma matrix_extract:
  "extract_title_year unicode_14_zeros (py ''The.Matrix.(1999).mkv'') =
     Inr (py ''The Matrix'', Some 1999)"
  by code_simp

lemma matrix_path:
  "path_name [py ''videos'', py ''The.Matrix.(1999).mkv''] = py ''The.Matrix.(1999).mkv''"
  "path_suffix [py ''videos'', py ''The.Matrix.(1999).mkv''] = py ''.mkv''"
  "path_parent [py ''videos'', py ''The.Matrix.(1999).mkv''] = [py ''videos'']"
  by code_simp+

lemma env_decimals:
  "decimals steady_env = unicode_14_zeros" "decimals tv_env = unicode_14_zeros"
  by (simp_all add: steady_env_def tv_env_def)

lemma matrix_steady_call:
  "fst (search_movie steady_env (py ''The Matrix'') (Some 1999) video_world) = matrix_result"
  by (simp add: search_movie_def Let_def emit_def matrix_key matrix_first_result
      steady_env_def video_world_def)

lemma matrix_tv_call:
  "fst (search_movie tv_env (py ''The Matrix'') (Some 1999) video_world) = JNull"
proof -
  have "py ''https://api.themoviedb.org/3/search/movie'' \<noteq> py ''https://api.themoviedb.org/3/search/tv''"
    by code_simp
  then show ?thesis
    by (simp add: search_movie_def Let_def emit_def matrix_key empty_first_result
        movie_request_def tv_env_def video_world_def)
qed

lemma matrix_truthy: "truthy matrix_result" "\<not> truthy JNull"
  by (simp_all add: matrix_result_def)

text \<open>
  With a provider that knows the movie only the movie lookup is called; with one that has
  no movie of that title the TV lookup follows.
\<close>

theorem process_file_fallback_witness:
  "lookups (new_events video_world
      (snd (process_file steady_env [py ''videos'', py ''The.Matrix.(1999).mkv''] False video_world))) =
     [Call_search_movie (py ''The Matrix'') (Some 1999)] \<and>
   lookups (new_events video_world
      (snd (process_file tv_env [py ''videos'', py ''The.Matrix.(1999).mkv''] False video_world))) =
     [Call_search_movie (py ''The Matrix'') (Some 1999),
      Call_search_tv_show (py ''The Matrix'') (Some 1999)]"
proof -
  let ?p = "[py ''videos'', py ''The.Matrix.(1999).mkv'']"
  have ex: "extract_title_year unicode_14_zeros (path_name ?p) = Inr (py ''The Matrix'', Some 1999)"
    by (simp only: matrix_path matrix_extract)
  have "lookups (new_events video_world (snd (process_file steady_env ?p False video_world))) =
     [Call_search_movie (py ''The Matrix'') (Some 1999)]"
    using process_file_fallback[of steady_env ?p video_world False]
    by (auto simp add: ex env_decimals matrix_steady_call matrix_truthy)
  moreover
  have "lookups (new_events video_world (snd (process_file tv_env ?p False video_world))) =
     [Call_search_movie (py ''The Matrix'') (Some 1999),
      Call_search_tv_show (py ''The Matrix'') (Some 1999)]"
    using process_file_fallback[of tv_env ?p video_world False]
    by (auto simp add: ex env_decimals matrix_tv_call matrix_truthy)
  ultimately show ?thesis by (rule conjI)
qed

lemma matrix_format:
  "format_movie_filename steady_env matrix_result (py ''.mkv'') =
     Inr (py ''The Matrix (1999).mkv'')"
  by code_simp

lemma matrix_target:
  "path_join [py ''videos''] (py ''The Matrix (1999).mkv'') =
     [py ''videos'', py ''The Matrix (1999).mkv'']"
  by code_simp

lemma matrix_search_logic:
  assumes "cache w = Map.empty"
  shows "search_logic steady_env (py ''The.Matrix.(1999).mkv'') (py ''The Matrix'') (Some 1999)
      (py ''.mkv'') w =
     (Some (Inr (py ''The Matrix (1999).mkv'')),
      snd (search_movie steady_env (py ''The Matrix'') (Some 1999) w))"
proof -
  have "fst (search_movie steady_env (py ''The Matrix'') (Some 1999) w) = matrix_result"
    using assms
    by (simp add: search_movie_def Let_def emit_def matrix_first_result steady_env_def)
  moreover obtain m w1 where
    sm: "search_movie steady_env (py ''The Matrix'') (Some 1999) w = (m, w1)"
    by force
  ultimately show ?thesis
    by (simp add: search_logic_def matrix_truthy matrix_format)
qed

lemma matrix_dry_run:
  "fst (process_file steady_env [py ''videos'', py ''The.Matrix.(1999).mkv''] True video_world) = True"
proof -
  let ?p = "[py ''videos'', py ''The.Matrix.(1999).mkv'']"
  have ex: "extract_title_year (decimals steady_env) (path_name ?p) =
      Inr (py ''The Matrix'', Some 1999)"
    by (simp only: matrix_path matrix_extract env_decimals)
  have "cache video_world = Map.empty" by (simp add: video_world_def)
  then have sl: "search_logic steady_env (path_name ?p) (py ''The Matrix'') (Some 1999)
      (path_suffix ?p) video_world =
     (Some (Inr (py ''The Matrix (1999).mkv'')),
      snd (search_movie steady_env (py ''The Matrix'') (Some 1999) video_world))"
    by (simp only: matrix_path matrix_search_logic)
  show ?thesis
    by (simp add: process_file_def ex sl Let_def)
qed

lemma clash_paths:
  "path_name [py ''videos'', py ''a?.mp4''] = py ''a?.mp4''"
  "plex_sanitize_filename (py ''a?.mp4'') = py ''a_.mp4''"
  "path_join (path_parent [py ''videos'', py ''a?.mp4'']) (py ''a_.mp4'') =
     [py ''videos'', py ''a_.mp4'']"
  "py ''a?.mp4'' \<noteq> py ''a_.mp4''"
  by code_simp+

text \<open>
  A dry run of the renamer on \<^verbatim>\<open>The.Matrix.(1999).mkv\<close> reports a rename and leaves the file
  under its name; so does a dry run of the sanitizer tool on \<^verbatim>\<open>a?.mp4\<close>.
\<close>

theorem dry_run_renames_nothing_witness:
  "fst (process_file steady_env [py ''videos'', py ''The.Matrix.(1999).mkv''] True video_world) = True \<and>
   map_of (files (snd (process_file steady_env [py ''videos'', py ''The.Matrix.(1999).mkv''] True
       video_world)))
     [py ''videos'', py ''The.Matrix.(1999).mkv''] = Some (File (py ''film'')) \<and>
   map_of (files (snd (process_file steady_env [py ''videos'', py ''The.Matrix.(1999).mkv''] True
       video_world)))
     [py ''videos'', py ''The Matrix (1999).mkv''] = None \<and>
   fst (plex_process_file steady_env [py ''videos'', py ''a?.mp4''] True clash_world) = True \<and>
   map_of (files (snd (plex_process_file steady_env [py ''videos'', py ''a?.mp4''] True clash_world)))
     [py ''videos'', py ''a?.mp4''] = Some (File (py ''first''))"
proof -
  let ?p = "[py ''videos'', py ''The.Matrix.(1999).mkv'']"
  have a: "files (snd (process_file steady_env ?p True video_world)) = files video_world"
    using dry_run_renames_nothing[of steady_env ?p video_world]
    by (rule conjunct1)
  have b: "files (snd (plex_process_file steady_env [py ''videos'', py ''a?.mp4''] True clash_world))
      = files clash_world"
    using dry_run_renames_nothing[of steady_env "[py ''videos'', py ''a?.mp4'']" clash_world]
    by blast
  have c: "fst (plex_process_file steady_env [py ''videos'', py ''a?.mp4''] True clash_world) = True"
    by (simp add: plex_process_file_def Let_def clash_paths)
  have v: "map_of (files video_world) ?p = Some (File (py ''film''))"
    "map_of (files video_world) [py ''videos'', py ''The Matrix (1999).mkv''] = None"
    "map_of (files clash_world) [py ''videos'', py ''a?.mp4''] = Some (File (py ''first''))"
    by code_simp+
  show ?thesis
    by (simp only: a b c v matrix_dry_run simp_thms)
qed

text \<open>
  The name \<^verbatim>\<open>movie.mp4\<close> is such a fixed point.
\<close>

theorem plex_process_file_fixed_point_witness:
  "plex_sanitize_filename (path_name [py ''videos'', py ''movie.mp4'']) =
     path_name [py ''videos'', py ''movie.mp4''] \<and>
   plex_process_file steady_env [py ''videos'', py ''movie.mp4''] False video_world =
     (False, video_world)"
proof -
  have fp: "plex_sanitize_filename (path_name [py ''videos'', py ''movie.mp4'']) =
      path_name [py ''videos'', py ''movie.mp4'']"
    by code_simp
  from fp plex_process_file_fixed_point[OF fp, of steady_env False video_world]
  show ?thesis by (rule conjI)
qed

lemma matrix_title: "organizer_sanitize_filename (py ''The Matrix'') = py ''The Matrix''"
  by code_simp

text \<open>
  The three cases for the title \<^verbatim>\<open>The Matrix\<close> and the extension \<^verbatim>\<open>.mkv\<close>.
\<close>

theorem format_movie_filename_year_witness:
  "format_movie_filename steady_env
      (JDict [(py ''title'', JStr (py ''The Matrix'')),
              (py ''release_date'', JStr (py ''1999-03-31''))]) (py ''.mkv'') =
     Inr (py ''The Matrix (1999).mkv'') \<and>
   format_movie_filename steady_env (JDict [(py ''title'', JStr (py ''The Matrix''))]) (py ''.mkv'') =
     Inr (py ''The Matrix (0000).mkv'') \<and>
   format_movie_filename steady_env
      (JDict [(py ''title'', JStr (py ''The Matrix'')), (py ''release_date'', JStr [])])
      (py ''.mkv'') =
     Inr (py ''The Matrix ().mkv'')"
proof -
  let ?t = "(py ''title'', JStr (py ''The Matrix''))"
  have keys: "py ''title'' \<noteq> py ''release_date''" "py ''release_date'' \<noteq> py ''title''"
    by code_simp+
  have names: "py ''The Matrix'' @ py '' ('' @ take 4 (py ''1999-03-31'') @ py '')'' @ py ''.mkv'' =
      py ''The Matrix (1999).mkv''"
    "py ''The Matrix'' @ py '' (0000)'' @ py ''.mkv'' = py ''The Matrix (0000).mkv''"
    "py ''The Matrix'' @ py '' ()'' @ py ''.mkv'' = py ''The Matrix ().mkv''"
    "py ''The Matrix'' @ py '' ('' @ py '')'' @ py ''.mkv'' = py ''The Matrix ().mkv''"
    "py ''1999-03-31'' \<noteq> []"
    by code_simp+
  show ?thesis
    using
      format_movie_filename_year[of "[?t, (py ''release_date'', JStr (py ''1999-03-31''))]"
        "py ''1999-03-31''" "py ''The Matrix''" steady_env "py ''.mkv''"]
      format_movie_filename_year[of "[?t]" "[]" "py ''The Matrix''" steady_env "py ''.mkv''"]
      format_movie_filename_year[of "[?t, (py ''release_date'', JStr [])]"
        "[]" "py ''The Matrix''" steady_env "py ''.mkv''"]
    by (simp add: py_get_def matrix_title keys names)
qed

lemma clash_rename:
  "os_rename Posix (files clash_world) [py ''videos'', py ''a?.mp4''] [py ''videos'', py ''a_.mp4''] =
     Inr [([py ''videos'', py ''a_.mp4''], File (py ''first'')), ([py ''videos''], Dir)]"
  by code_simp

lemma clash_files:
  "map_of (files clash_world) [py ''videos'', py ''a?.mp4''] = Some (File (py ''first''))"
  "map_of (files clash_world) [py ''videos'', py ''a_.mp4''] = Some (File (py ''second''))"
  "map_of [([py ''videos'', py ''a_.mp4''], File (py ''first'')), ([py ''videos''], Dir)]
     [py ''videos'', py ''a?.mp4''] = None"
  "map_of [([py ''videos'', py ''a_.mp4''], File (py ''first'')), ([py ''videos''], Dir)]
     [py ''videos'', py ''a_.mp4''] = Some (File (py ''first''))"
  by code_simp+

text \<open>
  Claim C4 at a directory that holds \<^verbatim>\<open>a?.mp4\<close> and \<^verbatim>\<open>a_.mp4\<close>, on POSIX, in apply mode of the
  sanitizer tool. The target of \<^verbatim>\<open>a?.mp4\<close> is \<^verbatim>\<open>a_.mp4\<close>, which exists. \<^verbatim>\<open>process_file\<close> does not
  look whether it exists: it renames, returns \<^verbatim>\<open>True\<close>, and the content of the file that was
  \<^verbatim>\<open>a_.mp4\<close> is replaced. The renamer does look (lemma \<open>process_file_existing_target\<close>).
\<close>

theorem plex_process_file_overwrites:
  "map_of (files clash_world) [py ''videos'', py ''a?.mp4''] = Some (File (py ''first'')) \<and>
   map_of (files clash_world) [py ''videos'', py ''a_.mp4''] = Some (File (py ''second'')) \<and>
   path_join (path_parent [py ''videos'', py ''a?.mp4''])
     (plex_sanitize_filename (path_name [py ''videos'', py ''a?.mp4''])) =
     [py ''videos'', py ''a_.mp4''] \<and>
   fst (plex_process_file steady_env [py ''videos'', py ''a?.mp4''] False clash_world) = True \<and>
   map_of (files (snd (plex_process_file steady_env [py ''videos'', py ''a?.mp4''] False clash_world)))
     [py ''videos'', py ''a?.mp4''] = None \<and>
   map_of (files (snd (plex_process_file steady_env [py ''videos'', py ''a?.mp4''] False clash_world)))
     [py ''videos'', py ''a_.mp4''] = Some (File (py ''first''))"
proof -
  have "platform steady_env = Posix" by (simp add: steady_env_def)
  then have "plex_process_file steady_env [py ''videos'', py ''a?.mp4''] False clash_world =
      (True, emit (Print_renamed (py ''a?.mp4'') (py ''a_.mp4''))
        (clash_world\<lparr>files :=
           [([py ''videos'', py ''a_.mp4''], File (py ''first'')), ([py ''videos''], Dir)]\<rparr>))"
    by (simp add: plex_process_file_def Let_def clash_paths clash_rename)
  then show ?thesis
    by (simp add: clash_paths clash_files emit_simps)
qed

text \<open>
  The renamer in apply mode, when \<^verbatim>\<open>The Matrix (1999).mkv\<close> already exists next to
  \<^verbatim>\<open>The.Matrix.(1999).mkv\<close>: nothing is renamed and the result is \<^verbatim>\<open>False\<close>.
\<close>

lemma process_file_existing_target_example:
  "map_of (files taken_world) [py ''videos'', py ''The Matrix (1999).mkv''] =
     Some (File (py ''other'')) \<and>
   fst (process_file steady_env [py ''videos'', py ''The.Matrix.(1999).mkv''] False taken_world) =
     False \<and>
   files (snd (process_file steady_env [py ''videos'', py ''The.Matrix.(1999).mkv''] False
     taken_world)) = files taken_world"
proof -
  let ?p = "[py ''videos'', py ''The.Matrix.(1999).mkv'']"
  let ?w1 = "snd (search_movie steady_env (py ''The Matrix'') (Some 1999) taken_world)"
  have ex: "extract_title_year (decimals steady_env) (path_name ?p) =
      Inr (py ''The Matrix'', Some 1999)"
    by (simp only: matrix_path matrix_extract env_decimals)
  have "cache taken_world = Map.empty" by (simp add: taken_world_def)
  then have sl: "search_logic steady_env (path_name ?p) (py ''The Matrix'') (Some 1999)
      (path_suffix ?p) taken_world = (Some (Inr (py ''The Matrix (1999).mkv'')), ?w1)"
    by (simp only: matrix_path matrix_search_logic)
  have old: "map_of (files taken_world) [py ''videos'', py ''The Matrix (1999).mkv''] =
      Some (File (py ''other''))"
    by code_simp
  have "path_exists (files ?w1) (path_join (path_parent ?p) (py ''The Matrix (1999).mkv''))"
    by (simp add: matrix_path matrix_target search_movie_files old path_exists_def)
  from process_file_existing_target[OF ex sl this] old show ?thesis
    by simp
qed

text \<open>
  The sanitizer tool in apply mode, in general: when the file exists, its name is not a fixed
  point, and the target is an existing file (and not the file itself), then on POSIX the
  file is renamed onto the target and the result is \<^verbatim>\<open>True\<close>; on Windows the rename fails,
  nothing changes and the result is \<^verbatim>\<open>False\<close>.
\<close>

lemma plex_process_file_existing_target:
  assumes "plex_sanitize_filename (path_name p) \<noteq> path_name p"
    and "map_of (files w) p = Some (File content)"
    and "target = path_join (path_parent p) (plex_sanitize_filename (path_name p))"
    and "map_of (files w) target = Some (File other)" and "target \<noteq> p"
    and "is_dir (files w) (path_parent target)"
  shows "platform ev = Posix \<Longrightarrow>
           plex_process_file ev p False w =
             (True, emit (Print_renamed (path_name p) (plex_sanitize_filename (path_name p)))
                      (w\<lparr>files := move_file (files w) p target content\<rparr>))"
    and "platform ev = Windows \<Longrightarrow>
           plex_process_file ev p False w = (False, emit (Print_error_renaming (path_name p)) w)"
  using assms by (auto simp add: plex_process_file_def os_rename_def Let_def)

text \<open>
  The cache is written by the three lookups only, so an entry stays as it is through
  \<^verbatim>\<open>process_file\<close> and \<^verbatim>\<open>process_directory\<close> of the renamer.
\<close>

lemma search_logic_keeps:
  assumes "cache w k = Some v"
  shows "cache (snd (search_logic ev n t y ext w)) k = Some v"
proof -
  obtain m w1 where sm: "search_movie ev t y w = (m, w1)" by force
  obtain tv w2 where st: "search_tv_show ev t y w1 = (tv, w2)" by force
  have 1: "cache w1 k = Some v"
    using search_movie_keeps[OF assms, of ev t y] sm by simp
  then have "cache w2 k = Some v"
    using search_tv_show_keeps[of w1 k v ev t y] st by simp
  with 1 show ?thesis
    by (simp add: search_logic_def sm st emit_simps)
qed

lemma process_file_keeps:
  assumes "cache w k = Some v"
  shows "cache (snd (process_file ev p dry_run w)) k = Some v"
proof (cases "extract_title_year (decimals ev) (path_name p)")
  case (Inl e)
  with assms show ?thesis by (simp add: process_file_def emit_simps)
next
  case (Inr ty)
  obtain t y where ty: "ty = (t, y)" by force
  obtain found w1 where sl: "search_logic ev (path_name p) t y (path_suffix p) w = (found, w1)"
    by force
  have "cache w1 k = Some v"
    using search_logic_keeps[OF assms, of ev "path_name p" t y "path_suffix p"] sl by simp
  then show ?thesis
    by (simp add: process_file_def Inr ty sl emit_simps Let_def split: option.splits sum.splits)
qed

lemma process_files_keeps:
  "cache w k = Some v \<Longrightarrow> cache (process_files ev fs dry_run w) k = Some v"
  by (induction fs arbitrary: w) (simp_all add: process_file_keeps)

lemma process_directory_keeps:
  "cache w k = Some v \<Longrightarrow> cache (process_directory ev entries dry_run w) k = Some v"
  by (simp add: process_directory_def process_files_keeps)

end
